theory Spec2Isabelle
  imports Main
begin

section \<open>JavaScript strings\<close>

text \<open>
  A JavaScript string is a sequence of UTF-16 code units. Code units are numbers, here
  integers;
  \<open>js\<close> turns an ASCII literal into such a sequence, so the Slovak word for black,
  whose first letter is U+010D, is \<open>269 # js ''ierna''\<close>. Strict equality of two
  strings is equality of the sequences.
\<close>

type_synonym jstring = "int list"

definition js :: "string \<Rightarrow> jstring" where
  "js s = map of_char s"

text \<open>\<open>Array.prototype.indexOf\<close>: the first index holding the value; \<open>None\<close> is -1.\<close>

fun indexOf :: "'a list \<Rightarrow> 'a \<Rightarrow> nat option" where
  "indexOf [] v = None"
| "indexOf (x # xs) v = (if x = v then Some 0 else map_option Suc (indexOf xs v))"


section \<open>Variant remapper (handler, step 2)\<close>

text \<open>
  The product as the GraphQL query of \<open>getProduct\<close> returns it: options with a name and
  a value list (and an identifier and a position, which the option update reads),
  variants with their selected options. The rewrite service answers with a
  list of options \<open>{ name, position?, values? }\<close>; an absent key is \<open>None\<close>.
\<close>

record product_option =
  opt_id :: jstring
  opt_name :: jstring
  opt_position :: int
  opt_values :: "jstring list"

record selected_option =
  so_name :: jstring
  so_value :: jstring

record variant =
  variant_id :: jstring
  selectedOptions :: "selected_option list"

record ai_option =
  ao_name :: "jstring option"
  ao_position :: "int option"
  ao_values :: "jstring list option"

text \<open>
  \<open>newValuesByPos\<close>: a \<open>Map\<close> filled by \<open>forEach((o, i) => ...)\<close>; the key is
  \<open>o.position ?? i + 1\<close>, a later entry for the same key replaces the earlier one.
\<close>

definition newValuesByPos :: "ai_option list \<Rightarrow> (int \<rightharpoonup> jstring list)" where
  "newValuesByPos opts =
     fold (\<lambda>(i, ao) m.
             case ao_values ao of
               None \<Rightarrow> m
             | Some vs \<Rightarrow> m((case ao_position ao of Some p \<Rightarrow> p | None \<Rightarrow> int i + 1) \<mapsto> vs))
          (enumerate 0 opts) Map.empty"

text \<open>
  \<open>byName\<close> and \<open>posByName\<close> are built with \<open>Object.fromEntries\<close>, so of two
  options with one name the later one stays. \<open>posByName\<close> holds the 1-based position.
\<close>

definition byName :: "product_option list \<Rightarrow> (jstring \<rightharpoonup> nat \<times> jstring list)" where
  "byName popts =
     fold (\<lambda>(idx, opt) m. m(opt_name opt \<mapsto> (idx, opt_values opt))) (enumerate 0 popts) Map.empty"

definition posByName :: "product_option list \<Rightarrow> (jstring \<rightharpoonup> nat)" where
  "posByName popts =
     fold (\<lambda>(idx, opt) m. m(opt_name opt \<mapsto> idx + 1)) (enumerate 0 popts) Map.empty"

text \<open>\<open>const pos = (posByName[so.name] || 0)\<close>\<close>

definition optionPos :: "product_option list \<Rightarrow> jstring \<Rightarrow> nat" where
  "optionPos popts n = (case posByName popts n of Some k \<Rightarrow> k | None \<Rightarrow> 0)"

text \<open>\<open>const oldValues = byName[so.name]?.values || []\<close>\<close>

definition oldValuesOf :: "product_option list \<Rightarrow> jstring \<Rightarrow> jstring list" where
  "oldValuesOf popts n = (case byName popts n of Some (idx, vs) \<Rightarrow> vs | None \<Rightarrow> [])"

text \<open>
  The body of the inner loop up to the three assignments: the new value of one selected
  option. \<open>typeof newList[oldIndex] !== "undefined"\<close> holds exactly when the index is
  inside the replacement list.
\<close>

definition newValFor ::
  "product_option list \<Rightarrow> (int \<rightharpoonup> jstring list) \<Rightarrow> selected_option \<Rightarrow> jstring" where
  "newValFor popts nv so =
     (case nv (int (optionPos popts (so_name so))) of
        None \<Rightarrow> so_value so
      | Some newList \<Rightarrow>
          (case indexOf (oldValuesOf popts (so_name so)) (so_value so) of
             None \<Rightarrow> so_value so
           | Some oldIndex \<Rightarrow>
               if oldIndex < length newList then newList ! oldIndex else so_value so))"

text \<open>
  \<open>newOpt1\<close>, \<open>newOpt2\<close>, \<open>newOpt3\<close> start undefined (\<open>None\<close>); one pass of the
  inner loop assigns at most one of them.
\<close>

record new_opts =
  newOpt1 :: "jstring option"
  newOpt2 :: "jstring option"
  newOpt3 :: "jstring option"

definition assignOpt ::
  "product_option list \<Rightarrow> (int \<rightharpoonup> jstring list) \<Rightarrow> selected_option \<Rightarrow> new_opts \<Rightarrow> new_opts" where
  "assignOpt popts nv so acc =
     (let pos = optionPos popts (so_name so);
          newVal = newValFor popts nv so;
          a1 = (if pos = 1 then acc\<lparr>newOpt1 := Some newVal\<rparr> else acc);
          a2 = (if pos = 2 then a1\<lparr>newOpt2 := Some newVal\<rparr> else a1)
      in (if pos = 3 then a2\<lparr>newOpt3 := Some newVal\<rparr> else a2))"

definition remapVariant ::
  "product_option list \<Rightarrow> (int \<rightharpoonup> jstring list) \<Rightarrow> variant \<Rightarrow> new_opts" where
  "remapVariant popts nv v =
     fold (assignOpt popts nv) (selectedOptions v)
       \<lparr>newOpt1 = None, newOpt2 = None, newOpt3 = None\<rparr>"

text \<open>
  \<open>restUpdateVariantOptions\<close>: the body of the PUT request; a key is present only when
  its argument is not undefined. \<open>gidToNumeric\<close> keeps the part after the last slash
  and answers null (\<open>None\<close>) for an empty identifier.
\<close>

record variant_payload =
  vp_id :: "jstring option"
  vp_option1 :: "jstring option"
  vp_option2 :: "jstring option"
  vp_option3 :: "jstring option"

fun lastSegment :: "jstring \<Rightarrow> jstring \<Rightarrow> jstring" where
  "lastSegment acc [] = acc"
| "lastSegment acc (c # cs) = (if c = 47 then lastSegment [] cs else lastSegment (acc @ [c]) cs)"

definition gidToNumeric :: "jstring \<Rightarrow> jstring option" where
  "gidToNumeric gid = (if gid = [] then None else Some (lastSegment [] gid))"

definition variantPayload :: "jstring \<Rightarrow> new_opts \<Rightarrow> variant_payload" where
  "variantPayload variantGid n =
     \<lparr>vp_id = gidToNumeric variantGid, vp_option1 = newOpt1 n,
      vp_option2 = newOpt2 n, vp_option3 = newOpt3 n\<rparr>"

definition variantUpdateRequest ::
  "product_option list \<Rightarrow> ai_option list \<Rightarrow> variant \<Rightarrow> variant_payload" where
  "variantUpdateRequest popts aopts v =
     variantPayload (variant_id v) (remapVariant popts (newValuesByPos aopts) v)"

text \<open>The example of the specification: one option with the values Black and White,
  and the replacement list of the rewrite service for position 1.\<close>

definition ex_popts :: "product_option list" where
  "ex_popts = [\<lparr>opt_id = js ''gid://shopify/ProductOption/1'', opt_name = js ''Color'',
                 opt_position = 1, opt_values = [js ''Black'', js ''White'']\<rparr>]"

definition ex_aopts :: "ai_option list" where
  "ex_aopts = [\<lparr>ao_name = Some (js ''Farba''), ao_position = None,
                ao_values = Some [269 # js ''ierna'', js ''biela'']\<rparr>]"

definition ex_variant :: variant where
  "ex_variant =
     \<lparr>variant_id = js ''gid://shopify/ProductVariant/56'',
      selectedOptions = [\<lparr>so_name = js ''Color'', so_value = js ''Black''\<rparr>,
                         \<lparr>so_name = js ''Size'', so_value = js ''M''\<rparr>]\<rparr>"

section \<open>JavaScript string operations\<close>

text \<open>
  White space as \<open>String.prototype.trim\<close> and the regular expression class \<open>\s\<close>
  know it: tab, line feed, vertical tab, form feed, carriage return, space, no-break space,
  U+1680, U+2000 to U+200A, the line and paragraph separators, U+202F, U+205F, U+3000 and
  U+FEFF.
\<close>

definition isSpace :: "int \<Rightarrow> bool" where
  "isSpace c \<longleftrightarrow>
     c \<in> {9, 10, 11, 12, 13, 32, 160, 5760, 8232, 8233, 8239, 8287, 12288, 65279}
     \<or> (8192 \<le> c \<and> c \<le> 8202)"

definition trim :: "jstring \<Rightarrow> jstring" where
  "trim s = rev (dropWhile isSpace (rev (dropWhile isSpace s)))"

text \<open>\<open>.replace(/\s+/g, " ")\<close>: every maximal run of white space becomes one space.
  The flag says whether the previous code unit belonged to a run.\<close>

fun collapseWs :: "bool \<Rightarrow> jstring \<Rightarrow> jstring" where
  "collapseWs inRun [] = []"
| "collapseWs inRun (c # cs) =
     (if isSpace c then (if inRun then collapseWs True cs else 32 # collapseWs True cs)
      else c # collapseWs False cs)"

text \<open>Replacing the class U+0300 to U+036F by the empty string removes the combining
  diacritical marks.\<close>

definition stripMarks :: "jstring \<Rightarrow> jstring" where
  "stripMarks s = filter (\<lambda>c. \<not> (768 \<le> c \<and> c \<le> 879)) s"

text \<open>The last replacement of the normalizers turns the hyphen U+2010, the non-breaking
  hyphen U+2011, the en dash U+2013 and the em dash U+2014 into the ASCII hyphen.\<close>

definition unifyDashes :: "jstring \<Rightarrow> jstring" where
  "unifyDashes s = map (\<lambda>c. if c \<in> {8208, 8209, 8211, 8212} then 45 else c) s"

definition startsWith :: "jstring \<Rightarrow> jstring \<Rightarrow> bool" where
  "startsWith s p \<longleftrightarrow> take (length p) s = p"

text \<open>\<open>String.prototype.includes\<close>\<close>

fun str_includes :: "jstring \<Rightarrow> jstring \<Rightarrow> bool" where
  "str_includes [] p = (p = [])"
| "str_includes (c # cs) p = (startsWith (c # cs) p \<or> str_includes cs p)"

text \<open>\<open>split(",")\<close>: the pieces between the commas; there is always at least one piece.\<close>

fun splitOn :: "int \<Rightarrow> jstring \<Rightarrow> jstring \<Rightarrow> jstring list" where
  "splitOn sep acc [] = [acc]"
| "splitOn sep acc (c # cs) =
     (if c = sep then acc # splitOn sep [] cs else splitOn sep (acc @ [c]) cs)"

text \<open>\<open>Array.prototype.join\<close>\<close>

fun joinWith :: "jstring \<Rightarrow> jstring list \<Rightarrow> jstring" where
  "joinWith sep [] = []"
| "joinWith sep [x] = x"
| "joinWith sep (x # y # ys) = x @ sep @ joinWith sep (y # ys)"

text \<open>
  Case mapping and canonical decomposition are the platform's
  (\<open>toLowerCase\<close>, \<open>toUpperCase\<close>, \<open>normalize("NFD")\<close>), defined by the Unicode tables.
  They are parameters of the model; \<open>ascii\<close> is the instance that agrees with the
  platform on strings of Basic Latin letters, where decomposition changes nothing.
\<close>

record unicode =
  toLowerCase :: "jstring \<Rightarrow> jstring"
  toUpperCase :: "jstring \<Rightarrow> jstring"
  normalizeNFD :: "jstring \<Rightarrow> jstring"

definition ascii :: unicode where
  "ascii =
     \<lparr>toLowerCase = map (\<lambda>c. if 65 \<le> c \<and> c \<le> 90 then c + 32 else c),
      toUpperCase = map (\<lambda>c. if 97 \<le> c \<and> c \<le> 122 then c - 32 else c),
      normalizeNFD = (\<lambda>s. s)\<rparr>"

section \<open>JSON values\<close>

text \<open>
  What \<open>JSON.parse\<close> returns. An object is the list of its own properties, each key
  once. \<open>undefined\<close> is no JSON value: reading a property gives a \<open>json option\<close>, and
  \<open>None\<close> is undefined. Numbers are integers here; the code only tests them for truth
  and prints them.
\<close>

datatype json =
    JNull
  | JBool bool
  | JNum int
  | JStr jstring
  | JArr "json list"
  | JObj "(jstring \<times> json) list"

text \<open>Truthiness (\<open>ToBoolean\<close>); undefined is falsy.\<close>

fun truthy :: "json option \<Rightarrow> bool" where
  "truthy None = False"
| "truthy (Some JNull) = False"
| "truthy (Some (JBool b)) = b"
| "truthy (Some (JNum n)) = (n \<noteq> 0)"
| "truthy (Some (JStr s)) = (s \<noteq> [])"
| "truthy (Some (JArr xs)) = True"
| "truthy (Some (JObj kvs)) = True"

text \<open>\<open>a || b\<close>\<close>

definition js_or :: "json option \<Rightarrow> json option \<Rightarrow> json option" where
  "js_or a b = (if truthy a then a else b)"

text \<open>Decimal digits of a natural number, for \<open>String(n)\<close> and for array indices as
  property keys.\<close>

function digits :: "nat \<Rightarrow> jstring" where
  "digits n = (if n < 10 then [48 + int n] else digits (n div 10) @ [48 + int (n mod 10)])"
  by pat_completeness auto
termination
  by (relation "measure (\<lambda>n. n)") auto

declare digits.simps [simp del]

text \<open>
  \<open>String(x)\<close>. An array prints its elements joined by commas, null elements as the
  empty string; an object prints as \<open>[object Object]\<close>. Integers print in decimal (the
  platform does so below \<open>10^21\<close>).
\<close>

fun toStr :: "json option \<Rightarrow> jstring"
  and toStrElems :: "json list \<Rightarrow> jstring list" where
  "toStr None = js ''undefined''"
| "toStr (Some JNull) = js ''null''"
| "toStr (Some (JBool b)) = (if b then js ''true'' else js ''false'')"
| "toStr (Some (JNum n)) = (if n < 0 then 45 # digits (nat (- n)) else digits (nat n))"
| "toStr (Some (JStr s)) = s"
| "toStr (Some (JArr xs)) = joinWith [44] (toStrElems xs)"
| "toStr (Some (JObj kvs)) = js ''[object Object]''"
| "toStrElems [] = []"
| "toStrElems (x # xs) = (if x = JNull then [] else toStr (Some x)) # toStrElems xs"

text \<open>\<open>String(x || "")\<close>\<close>

definition strOrEmpty :: "json option \<Rightarrow> jstring" where
  "strOrEmpty x = (if truthy x then toStr x else [])"

text \<open>
  Reading a property. The keys the code reads (\<open>name\<close>, \<open>title\<close>, \<open>children\<close>,
  \<open>node_slug\<close>, \<open>slug\<close>, \<open>facets\<close>, \<open>BRANDS\<close>, \<open>TEMPLATE\<close>,
  \<open>collections_node_slugs\<close>) are no built-in property of a string, number, boolean or
  array, so on those the read gives undefined. On null the read throws; the callers below
  deal with null before they read.
\<close>

definition getProp :: "(jstring \<times> json) list \<Rightarrow> string \<Rightarrow> json option" where
  "getProp kvs k = map_of kvs (js k)"

definition setProp :: "string \<Rightarrow> json \<Rightarrow> (jstring \<times> json) list \<Rightarrow> (jstring \<times> json) list" where
  "setProp k v kvs = (js k, v) # filter (\<lambda>(k', _). k' \<noteq> js k) kvs"

definition delProp :: "string \<Rightarrow> (jstring \<times> json) list \<Rightarrow> (jstring \<times> json) list" where
  "delProp k kvs = filter (\<lambda>(k', _). k' \<noteq> js k) kvs"

text \<open>Arrays and objects are the values that can carry properties.\<close>

fun isObject :: "json \<Rightarrow> bool" where
  "isObject (JArr xs) = True"
| "isObject (JObj kvs) = True"
| "isObject _ = False"

fun propOf :: "json \<Rightarrow> string \<Rightarrow> json option" where
  "propOf (JObj kvs) k = getProp kvs k"
| "propOf _ k = None"


section \<open>Taxonomy store\<close>

text \<open>
  What the code can throw. Every \<open>throw\<close> and every operation that raises is a
  branch returning \<open>Inl\<close>: a \<open>TypeError\<close> of the language, the failure to read or
  parse a file or a body, the two \<open>throw new Error(message)\<close> kinds (the unsupported
  taxonomy format, and \<open>Failure\<close> with the message), and \<open>Rejected\<close> for a promise
  that an external service rejects, with the text \<open>String(err)\<close> of its error.
\<close>

datatype exn =
    TypeError
  | ReadOrParseError
  | UnsupportedFormat
  | Failure jstring
  | Rejected jstring

fun mapE :: "('a \<Rightarrow> exn + 'b) \<Rightarrow> 'a list \<Rightarrow> exn + 'b list" where
  "mapE f [] = Inr []"
| "mapE f (x # xs) =
     (case f x of
        Inl e \<Rightarrow> Inl e
      | Inr y \<Rightarrow> (case mapE f xs of Inl e \<Rightarrow> Inl e | Inr ys \<Rightarrow> Inr (y # ys)))"

text \<open>
  A node of the loaded forest: an object whose \<open>children\<close> property is an array of
  nodes. \<open>props\<close> holds the other own properties of the object (\<open>name\<close>, \<open>title\<close>,
  \<open>node_slug\<close>, \<open>facets\<close>, whatever else the file gave).
\<close>

datatype tnode = TNode (props: "(jstring \<times> json) list") (children: "tnode list")

text \<open>\<open>ensureName\<close> on an object: \<open>if (!node.name && node.title) node.name = node.title\<close>\<close>

definition ensureName :: "(jstring \<times> json) list \<Rightarrow> (jstring \<times> json) list" where
  "ensureName kvs =
     (case getProp kvs ''title'' of
        None \<Rightarrow> kvs
      | Some t \<Rightarrow>
          if \<not> truthy (getProp kvs ''name'') \<and> truthy (Some t) then setProp ''name'' t kvs else kvs)"

text \<open>
  The own enumerable properties that \<open>{ ...n }\<close> copies: those of an object, the
  indexed elements of an array, the indexed code units of a string, none of anything else.
\<close>

fun spread :: "json \<Rightarrow> (jstring \<times> json) list" where
  "spread (JObj kvs) = kvs"
| "spread (JArr xs) = map (\<lambda>(i, x). (digits i, x)) (enumerate 0 xs)"
| "spread (JStr s) = map (\<lambda>(i, c). (digits i, JStr [c])) (enumerate 0 s)"
| "spread _ = []"

text \<open>
  \<open>GetSubstitution\<close> for a string pattern, which has no capture groups: in the
  replacement text \<open>$$\<close> is a dollar sign, \<open>$&\<close> the match, \<open>$`\<close> the text before
  the match and \<open>$'\<close> the text after it; any other dollar sign stands for itself.
\<close>

fun getSubstitution :: "jstring \<Rightarrow> jstring \<Rightarrow> jstring \<Rightarrow> jstring \<Rightarrow> jstring" where
  "getSubstitution m pre post [] = []"
| "getSubstitution m pre post [c] = [c]"
| "getSubstitution m pre post (c # d # cs) =
     (if c = 36 then
        (if d = 36 then 36 # getSubstitution m pre post cs
         else if d = 38 then m @ getSubstitution m pre post cs
         else if d = 96 then pre @ getSubstitution m pre post cs
         else if d = 39 then post @ getSubstitution m pre post cs
         else 36 # getSubstitution m pre post (d # cs))
      else c # getSubstitution m pre post (d # cs))"

text \<open>
  \<open>String.prototype.replaceAll\<close> with a non-empty string pattern: the occurrences are
  found from left to right without overlap. \<open>pre\<close> is the part of the original
  string already passed.
\<close>

function replaceAllFrom :: "jstring \<Rightarrow> jstring \<Rightarrow> jstring \<Rightarrow> jstring \<Rightarrow> jstring" where
  "replaceAllFrom pat repl pre [] = []"
| "replaceAllFrom pat repl pre (c # cs) =
     (if pat \<noteq> [] \<and> startsWith (c # cs) pat
      then getSubstitution pat pre (drop (length pat) (c # cs)) repl
           @ replaceAllFrom pat repl (pre @ pat) (drop (length pat) (c # cs))
      else c # replaceAllFrom pat repl (pre @ [c]) cs)"
  by pat_completeness auto
termination
  by (relation "measure (\<lambda>(pat, repl, pre, s). length s)") (auto simp: neq_Nil_conv)

definition replaceAll :: "jstring \<Rightarrow> jstring \<Rightarrow> jstring \<Rightarrow> jstring" where
  "replaceAll pat repl s = replaceAllFrom pat repl [] s"

definition placeholder :: jstring where
  "placeholder = js ''{{BRAND}}''"

text \<open>\<open>replaceBrandTokens = (s) => String(s || "").replaceAll("{{BRAND}}", brand)\<close>;
  the brand, an element of \<open>BRANDS\<close>, is turned into a string by \<open>replaceAll\<close>.\<close>

definition replaceBrandTokens :: "json \<Rightarrow> json option \<Rightarrow> jstring" where
  "replaceBrandTokens brand s = replaceAll placeholder (toStr (Some brand)) (strOrEmpty s)"

text \<open>\<open>String(src.facets).split(",").map(x => x.trim()).filter(Boolean)\<close>\<close>

definition facetsFromString :: "json \<Rightarrow> json" where
  "facetsFromString f =
     JArr (map JStr (filter (\<lambda>x. x \<noteq> []) (map trim (splitOn 44 [] (toStr (Some f))))))"

text \<open>
  The body of \<open>walk\<close> after the clone, on the properties of the node.
  \<open>deepClone\<close> is \<open>JSON.parse(JSON.stringify(o))\<close>, the identity on a JSON value.
\<close>

definition walkProps :: "json \<Rightarrow> (jstring \<times> json) list \<Rightarrow> (jstring \<times> json) list" where
  "walkProps brand kvs0 =
     (let kvs1 = ensureName kvs0;
          kvs2 = setProp ''name''
                   (JStr (replaceBrandTokens brand
                            (js_or (js_or (getProp kvs1 ''name'') (getProp kvs1 ''title'')) (Some brand))))
                   kvs1;
          kvs3 = (case getProp kvs2 ''slug'' of
                    None \<Rightarrow> kvs2
                  | Some s \<Rightarrow>
                      if getProp kvs2 ''node_slug'' = None \<and> truthy (Some s)
                      then setProp ''node_slug'' s kvs2 else kvs2)
      in (case getProp kvs3 ''facets'' of
            None \<Rightarrow> kvs3
          | Some (JArr fs) \<Rightarrow> kvs3
          | Some f \<Rightarrow> if truthy (Some f) then setProp ''facets'' (facetsFromString f) kvs3 else kvs3))"

text \<open>Case A of \<open>loadTaxonomia\<close>, the pre-expanded tree:
  \<open>n = ensureName({ ...n }); n.children = Array.isArray(n.children) ? n.children.map(fix) : []\<close>\<close>

function fixNode :: "json \<Rightarrow> tnode" where
  "fixNode n =
     TNode (delProp ''children'' (ensureName (spread n)))
       (case getProp (ensureName (spread n)) ''children'' of
          Some (JArr cs) \<Rightarrow> map fixNode cs
        | _ \<Rightarrow> [])"
  by pat_completeness auto
termination
proof (relation "measure size", simp)
  fix n :: json and x2 x5 x
  assume a: "getProp (ensureName (spread n)) ''children'' = Some x2" "x2 = JArr x5" "x \<in> set x5"
  have mo: "map_of kvs k = Some v \<Longrightarrow> size v < Suc (size_list (size_prod (\<lambda>_. 0) size) kvs)"
    for kvs :: "(jstring \<times> json) list" and k v
    by (induction kvs) (auto split: if_splits)
  have ne: "js ''name'' \<noteq> js ''children''"
    by (simp add: js_def)
  have en: "getProp (ensureName kvs) ''children'' = getProp kvs ''children''"
    for kvs :: "(jstring \<times> json) list"
  proof -
    have "map_of (filter (\<lambda>(k', _). k' \<noteq> js ''name'') kvs) (js ''children'')
          = map_of kvs (js ''children'')"
      using ne by (induction kvs) auto
    then show ?thesis
      using ne by (auto simp: ensureName_def getProp_def setProp_def split: option.splits)
  qed
  have st: "map_of (map (\<lambda>(i, c). (digits i, JStr [c])) ics) k = Some v \<Longrightarrow> \<exists>c. v = JStr [c]"
    for ics :: "(nat \<times> int) list" and k v
    by (induction ics) (auto split: if_splits)
  from a en[of "spread n"] have l: "map_of (spread n) (js ''children'') = Some (JArr x5)"
    by (simp add: getProp_def)
  have el: "size x < size (JArr x5)"
    using a(3) by (induction x5) auto
  have "size (JArr x5) < size n"
  proof (cases n)
    case (JObj kvs)
    with l mo[of kvs "js ''children''" "JArr x5"] show ?thesis by simp
  next
    case (JArr xs)
    with l have "JArr x5 \<in> set xs"
      by (auto dest!: map_of_SomeD simp: in_set_enumerate_eq) (metis nth_mem)
    then have "size (JArr x5) < Suc (size_list size xs)"
      by (induction xs) auto
    with JArr show ?thesis by simp
  next
    case (JStr s)
    with l st[of "enumerate 0 s"] show ?thesis by auto
  qed (use l in auto)
  with el show "(x, n) \<in> measure size" by simp
qed

text \<open>
  Case B, \<open>walk\<close> inside \<open>expandBrand\<close>. Reading \<open>src.name\<close> of null throws; the
  module is an ECMAScript module and so strict code, where assigning \<open>src.name\<close> on a
  number, string or boolean throws as well. An array is an object: its indexed elements
  are its properties.
\<close>

function walk :: "json \<Rightarrow> json \<Rightarrow> exn + tnode"
  and walkChildren :: "json \<Rightarrow> json list \<Rightarrow> exn + tnode list" where
  "walk brand node =
     (if \<not> isObject node then Inl TypeError
      else
        (case getProp (walkProps brand (spread node)) ''children'' of
           Some (JArr cs) \<Rightarrow>
             (case walkChildren brand cs of
                Inl e \<Rightarrow> Inl e
              | Inr ts \<Rightarrow> Inr (TNode (delProp ''children'' (walkProps brand (spread node))) ts))
         | _ \<Rightarrow> Inr (TNode (delProp ''children'' (walkProps brand (spread node))) [])))"
| "walkChildren brand [] = Inr []"
| "walkChildren brand (c # cs) =
     (case walk brand c of
        Inl e \<Rightarrow> Inl e
      | Inr t \<Rightarrow> (case walkChildren brand cs of Inl e \<Rightarrow> Inl e | Inr ts \<Rightarrow> Inr (t # ts)))"
  by pat_completeness auto
termination
proof -
  have mo: "map_of kvs k = Some v \<Longrightarrow> size v < Suc (size_list (size_prod (\<lambda>_. 0) size) kvs)"
    for kvs :: "(jstring \<times> json) list" and k v
    by (induction kvs) (auto split: if_splits)
  have sp: "js k \<noteq> js ''children'' \<Longrightarrow> getProp (setProp k v kvs) ''children'' = getProp kvs ''children''"
    for k v and kvs :: "(jstring \<times> json) list"
  proof -
    assume ne: "js k \<noteq> js ''children''"
    have "map_of (filter (\<lambda>(k', _). k' \<noteq> js k) kvs) (js ''children'')
          = map_of kvs (js ''children'')"
      using ne by (induction kvs) auto
    then show ?thesis
      using ne by (simp add: getProp_def setProp_def)
  qed
  have n1: "js ''name'' \<noteq> js ''children''" and n2: "js ''node_slug'' \<noteq> js ''children''"
    and n3: "js ''facets'' \<noteq> js ''children''"
    by (simp_all add: js_def)
  have en: "getProp (ensureName kvs) ''children'' = getProp kvs ''children''"
    for kvs :: "(jstring \<times> json) list"
    by (simp add: ensureName_def sp[OF n1] split: option.splits)
  have wp: "getProp (walkProps brand kvs) ''children'' = getProp kvs ''children''"
    for brand and kvs :: "(jstring \<times> json) list"
    by (simp add: walkProps_def Let_def sp[OF n1] sp[OF n2] sp[OF n3] en
             split: option.splits json.splits)
  have sz: "map_of (spread node) (js ''children'') = Some (JArr cs) \<Longrightarrow> size (JArr cs) < size node"
    for node cs
  proof (cases node)
    case (JObj kvs)
    assume "map_of (spread node) (js ''children'') = Some (JArr cs)"
    with JObj mo[of kvs "js ''children''" "JArr cs"] show ?thesis by simp
  next
    case (JArr xs)
    assume "map_of (spread node) (js ''children'') = Some (JArr cs)"
    with JArr have "JArr cs \<in> set xs"
      by (auto dest!: map_of_SomeD simp: in_set_enumerate_eq)
         (metis nth_mem)
    then have "size (JArr cs) < Suc (size_list size xs)"
      by (induction xs) auto
    with JArr show ?thesis by simp
  next
    case (JStr s)
    have st: "map_of (map (\<lambda>(i, c). (digits i, JStr [c])) ics) k = Some v \<Longrightarrow> \<exists>c. v = JStr [c]"
      for ics :: "(nat \<times> int) list" and k v
      by (induction ics) (auto split: if_splits)
    assume "map_of (spread node) (js ''children'') = Some (JArr cs)"
    with JStr st[of "enumerate 0 s"] show ?thesis by auto
  qed auto
  show ?thesis
    apply (relation "measure (\<lambda>a. case a of Inl (brand, node) \<Rightarrow> 2 * size node
                                       | Inr (brand, cs) \<Rightarrow> 2 * size_list size cs + 1)")
    apply simp
    subgoal for brand node x2 cs
      using wp[of brand "spread node"] sz[of node cs] by (simp add: getProp_def)
    apply simp
    apply simp
    done
qed

text \<open>
  \<open>expandBrand\<close>: \<open>walk\<close> starts from the literal
  \<open>{ name: tpl.title || "{{BRAND}}", children: tpl.children || [], node_slug: tpl.node_slug,
  facets: tpl.facets }\<close>. The clone inside \<open>walk\<close> drops the keys of the literal whose
  value is undefined, so they are left out here.
\<close>

definition orElse :: "json option \<Rightarrow> json \<Rightarrow> json" where
  "orElse x d = (case x of None \<Rightarrow> d | Some v \<Rightarrow> if truthy (Some v) then v else d)"

definition templateRoot :: "json \<Rightarrow> json" where
  "templateRoot tpl =
     JObj ([(js ''name'', orElse (propOf tpl ''title'') (JStr placeholder)),
            (js ''children'', orElse (propOf tpl ''children'') (JArr []))]
           @ (case propOf tpl ''node_slug'' of None \<Rightarrow> [] | Some v \<Rightarrow> [(js ''node_slug'', v)])
           @ (case propOf tpl ''facets'' of None \<Rightarrow> [] | Some v \<Rightarrow> [(js ''facets'', v)]))"

definition expandBrand :: "json \<Rightarrow> json \<Rightarrow> exn + tnode" where
  "expandBrand tpl brand = walk brand (templateRoot tpl)"

text \<open>
  The body of the \<open>try\<close> block of \<open>loadTaxonomia\<close>. Its argument is what
  \<open>JSON.parse(fs.readFileSync(file, "utf8"))\<close> gives: the parsed value, or the
  exception of the read or of the parser. \<open>raw.BRANDS\<close> throws when \<open>raw\<close> is null.
\<close>

definition isPreExpandedTree :: "json \<Rightarrow> bool" where
  "isPreExpandedTree raw \<longleftrightarrow>
     (case raw of JArr xs \<Rightarrow> True | _ \<Rightarrow> False)
     \<or> (truthy (Some raw) \<and> truthy (propOf raw ''children''))
     \<or> (truthy (Some raw) \<and> truthy (propOf raw ''name''))
     \<or> (truthy (Some raw) \<and> truthy (propOf raw ''title''))"

definition loadBody :: "exn + json \<Rightarrow> exn + tnode list" where
  "loadBody file =
     (case file of
        Inl e \<Rightarrow> Inl e
      | Inr raw \<Rightarrow>
          if isPreExpandedTree raw
          then Inr (map fixNode (case raw of JArr xs \<Rightarrow> xs | _ \<Rightarrow> [raw]))
          else if raw = JNull then Inl TypeError
          else
            (let brands = (case propOf raw ''BRANDS'' of Some (JArr bs) \<Rightarrow> bs | _ \<Rightarrow> []);
                 tpl = propOf raw ''TEMPLATE''
             in if \<not> truthy tpl \<or> brands = [] then Inl UnsupportedFormat
                else mapE (expandBrand (orElse tpl JNull)) brands))"

text \<open>
  \<open>loadTaxonomia\<close> with its module variable \<open>taxonomia\<close> as explicit state:
  \<open>None\<close> is the initial null. An array is truthy even when empty, so a forest that
  was loaded once, also the empty one of the \<open>catch\<close> branch, is returned as it is.
\<close>

definition loadTaxonomia :: "tnode list option \<Rightarrow> exn + json \<Rightarrow> tnode list \<times> tnode list option" where
  "loadTaxonomia taxonomia file =
     (case taxonomia of
        Some t \<Rightarrow> (t, Some t)
      | None \<Rightarrow>
          (case loadBody file of
             Inl e \<Rightarrow> ([], Some [])
           | Inr t \<Rightarrow> (t, Some t)))"

text \<open>\<open>node.name || node.title\<close>\<close>

definition nameOrTitle :: "tnode \<Rightarrow> json option" where
  "nameOrTitle n = js_or (getProp (props n) ''name'') (getProp (props n) ''title'')"

text \<open>
  The chain of string operations of \<open>normalizeForMatch\<close> and of the local
  \<open>normalize\<close> of the two branch lookups: trim, collapse white space, lower case,
  decompose, strip the marks, unify the dashes.
\<close>

definition normString :: "unicode \<Rightarrow> jstring \<Rightarrow> jstring" where
  "normString U s =
     unifyDashes (stripMarks (normalizeNFD U (toLowerCase U (collapseWs False (trim s)))))"

text \<open>\<open>normalize = (s) => String(s || "")...\<close> of \<open>getTaxonomyBranchNodesFromLeaf\<close>\<close>

definition normalize :: "unicode \<Rightarrow> json option \<Rightarrow> jstring" where
  "normalize U s = normString U (strOrEmpty s)"

text \<open>\<open>normalizeForMatch\<close>: \<open>if (!raw) return ""\<close>, then the same chain on \<open>String(raw)\<close>\<close>

definition normalizeForMatch :: "unicode \<Rightarrow> json option \<Rightarrow> jstring" where
  "normalizeForMatch U raw = (if \<not> truthy raw then [] else normString U (toStr raw))"

text \<open>
  \<open>visit\<close> of \<open>getTaxonomyBranchNodesFromLeaf\<close>: depth first, the first node whose
  normalized name is the wanted one ends the search; the result is \<open>foundPath\<close>.
  \<open>visitAll\<close> is the loop over a list of nodes that stops at the first success; it is
  the loop over the children and the loop over the roots.
\<close>

fun visit :: "unicode \<Rightarrow> jstring \<Rightarrow> tnode list \<Rightarrow> tnode \<Rightarrow> tnode list option"
  and visitAll :: "unicode \<Rightarrow> jstring \<Rightarrow> tnode list \<Rightarrow> tnode list \<Rightarrow> tnode list option" where
  "visit U want path (TNode ps cs) =
     (if normalize U (nameOrTitle (TNode ps cs)) = want then Some (path @ [TNode ps cs])
      else visitAll U want (path @ [TNode ps cs]) cs)"
| "visitAll U want path [] = None"
| "visitAll U want path (c # cs) =
     (case visit U want path c of
        Some found \<Rightarrow> Some found
      | None \<Rightarrow> visitAll U want path cs)"

definition getTaxonomyBranchNodesFromLeaf :: "unicode \<Rightarrow> tnode list \<Rightarrow> jstring \<Rightarrow> tnode list" where
  "getTaxonomyBranchNodesFromLeaf U tax leafName =
     (if tax = [] then []
      else (case visitAll U (normalize U (Some (JStr leafName))) [] tax of
              Some foundPath \<Rightarrow> foundPath
            | None \<Rightarrow> []))"




text \<open>
  The template of the specification's scenario: the brands AUDI and BMW, a root titled
  with the placeholder and one child titled with the placeholder and the word for
  exterior (its sixth letter is U+00E9).
\<close>

definition ex_template :: json where
  "ex_template =
     JObj [(js ''BRANDS'', JArr [JStr (js ''AUDI''), JStr (js ''BMW'')]),
           (js ''TEMPLATE'',
            JObj [(js ''title'', JStr (js ''{{BRAND}}'')),
                  (js ''children'',
                   JArr [JObj [(js ''title'', JStr (js ''{{BRAND}} Exteri'' @ [233] @ js ''r''))]])])]"

definition ex_child :: "jstring \<Rightarrow> tnode" where
  "ex_child brand =
     TNode [(js ''name'', JStr (brand @ js '' Exteri'' @ [233] @ js ''r'')),
            (js ''title'', JStr (js ''{{BRAND}} Exteri'' @ [233] @ js ''r''))] []"

definition ex_root :: "jstring \<Rightarrow> tnode" where
  "ex_root brand = TNode [(js ''name'', JStr brand)] [ex_child brand]"

definition ex_forest :: "tnode list" where
  "ex_forest = [ex_root (js ''AUDI''), ex_root (js ''BMW'')]"


section \<open>Brand and leaf classifier\<close>

text \<open>
  The product as \<open>getProduct\<close> selects it. The GraphQL schema makes the title, the
  vendor, the tags and the options non-null; the metafield connection is read with
  \<open>?.\<close>, so it may be missing (\<open>None\<close>). A metafield is a pair of key and value.
\<close>

record product =
  p_id :: jstring
  p_title :: jstring
  p_vendor :: jstring
  p_descriptionHtml :: jstring
  p_tags :: "jstring list"
  p_options :: "product_option list"
  p_variants :: "variant list"
  p_metafields :: "(jstring \<times> jstring) list option"

text \<open>
  The answer \<open>out\<close> of the rewrite service, by the keys the handler reads. A key that
  is missing, or that does not hold an array where the handler asks for one, is \<open>None\<close>.
\<close>

record ai_output =
  out_title :: "json option"
  out_description :: "json option"
  out_base_tags :: "jstring list option"
  out_subtags :: "jstring list option"
  out_extra_tags :: "jstring list option"
  out_collections :: "jstring list option"
  out_options :: "ai_option list option"

definition orNil :: "'a list option \<Rightarrow> 'a list" where
  "orNil x = (case x of None \<Rightarrow> [] | Some xs \<Rightarrow> xs)"

text \<open>The keyword table of \<open>detectBrandFromProduct\<close>, in the order of its keys;
  U+0161 and U+0160 are the small and the capital s with caron.\<close>

definition brandMap :: "(jstring \<times> jstring) list" where
  "brandMap =
     [(js ''audi'', js ''AUDI''), (js ''bmw'', js ''BMW''),
      (js ''mercedes-benz'', js ''MERCEDES-BENZ''), (js ''mercedes'', js ''MERCEDES-BENZ''),
      (353 # js ''koda'', 352 # js ''KODA''), (js ''skoda'', 352 # js ''KODA''),
      (js ''volkswagen'', js ''VOLKSWAGEN''), (js ''vw'', js ''VOLKSWAGEN''),
      (js ''seat'', js ''SEAT''), (js ''peugeot'', js ''PEUGEOT''),
      (js ''citroen'', js ''CITROEN''), (js ''renault'', js ''RENAULT''),
      (js ''ford'', js ''FORD''), (js ''toyota'', js ''TOYOTA''), (js ''honda'', js ''HONDA''),
      (js ''hyundai'', js ''HYUNDAI''), (js ''kia'', js ''KIA''), (js ''mazda'', js ''MAZDA''),
      (js ''opel'', js ''OPEL''), (js ''nissan'', js ''NISSAN''), (js ''fiat'', js ''FIAT''),
      (js ''volvo'', js ''VOLVO''), (js ''mini'', js ''MINI''), (js ''porsche'', js ''PORSCHE''),
      (js ''tesla'', js ''TESLA''), (js ''dacia'', js ''DACIA'')]"

text \<open>\<open>detectBrandFromProduct\<close>: the first key of the table that occurs in the joined,
  lower-cased text; \<open>None\<close> is null.\<close>

definition brandHay :: "unicode \<Rightarrow> product \<Rightarrow> ai_output \<Rightarrow> jstring" where
  "brandHay U p out =
     joinWith [32]
       (map (toLowerCase U)
          (filter (\<lambda>s. s \<noteq> [])
             ([p_vendor p, p_title p] @ p_tags p @ orNil (out_base_tags out)
              @ orNil (out_subtags out))))"

definition detectBrandFromProduct :: "unicode \<Rightarrow> product \<Rightarrow> ai_output \<Rightarrow> jstring option" where
  "detectBrandFromProduct U p out =
     map_option snd (find (\<lambda>(k, label). str_includes (brandHay U p out) k) brandMap)"

text \<open>\<open>norm\<close> of \<open>getBrandLeaves\<close>: lower case, decompose, strip the marks.\<close>

definition normBrand :: "unicode \<Rightarrow> json option \<Rightarrow> jstring" where
  "normBrand U s = stripMarks (normalizeNFD U (toLowerCase U (strOrEmpty s)))"

text \<open>
  \<open>walk\<close> of \<open>getBrandLeaves\<close>: a node without children is a leaf when its
  \<open>node_slug\<close> is truthy; a node with children is never one. Each leaf comes with its
  path of labels from the root.
\<close>

fun leavesWalk :: "tnode \<Rightarrow> json option list \<Rightarrow> (tnode \<times> json option list) list"
  and leavesWalkAll :: "tnode list \<Rightarrow> json option list \<Rightarrow> (tnode \<times> json option list) list" where
  "leavesWalk (TNode ps cs) path =
     (if cs = []
      then (if truthy (getProp ps ''node_slug'')
            then [(TNode ps cs, path @ [nameOrTitle (TNode ps cs)])] else [])
      else leavesWalkAll cs (path @ [nameOrTitle (TNode ps cs)]))"
| "leavesWalkAll [] path = []"
| "leavesWalkAll (c # cs) path = leavesWalk c path @ leavesWalkAll cs path"

definition getBrandLeaves ::
  "unicode \<Rightarrow> tnode list \<Rightarrow> jstring \<Rightarrow> (tnode \<times> json option list) list" where
  "getBrandLeaves U tax brandName =
     (if tax = [] \<or> brandName = [] then []
      else (case find (\<lambda>r. normBrand U (nameOrTitle r) = normBrand U (Some (JStr brandName))) tax of
              None \<Rightarrow> []
            | Some root \<Rightarrow> leavesWalk root []))"

text \<open>
  The whitelist handed to the classification service:
  \<open>leaves.map(x => ({ slug: x.node_slug, label: x.path.join(" -> ") })).filter(x => x.slug)\<close>;
  the separator is a space, the arrow U+2192 and a space. \<open>join\<close> prints undefined and
  null as the empty string.
\<close>

definition pathLabel :: "json option list \<Rightarrow> jstring" where
  "pathLabel path =
     joinWith [32, 8594, 32]
       (map (\<lambda>x. if x = None \<or> x = Some JNull then [] else toStr x) path)"

definition allowedLeaves :: "(tnode \<times> json option list) list \<Rightarrow> (json option \<times> jstring) list" where
  "allowedLeaves leaves =
     filter (\<lambda>(slug, label). truthy slug)
       (map (\<lambda>(n, path). (getProp (props n) ''node_slug'', pathLabel path)) leaves)"

text \<open>
  \<open>dfs\<close> of \<open>getBranchBySlug\<close> with its two outer variables as state: the stack
  \<open>path\<close> and \<open>found\<close> (\<open>None\<close> is null). \<open>forEach\<close> has no early exit: after a
  hit the later siblings are still entered, pushed and compared, and are not popped.
\<close>

fun dfs :: "jstring \<Rightarrow> tnode \<Rightarrow> tnode list \<times> tnode list option \<Rightarrow> tnode list \<times> tnode list option"
  and dfsAll :: "jstring \<Rightarrow> tnode list \<Rightarrow> tnode list \<times> tnode list option
                   \<Rightarrow> tnode list \<times> tnode list option" where
  "dfs slug (TNode ps cs) (path, found) =
     (let path1 = path @ [TNode ps cs];
          found1 = (if strOrEmpty (getProp ps ''node_slug'') = slug then Some path1 else found);
          (path2, found2) = (if found1 = None then dfsAll slug cs (path1, found1)
                             else (path1, found1))
      in (if found2 = None then butlast path2 else path2, found2))"
| "dfsAll slug [] st = st"
| "dfsAll slug (c # cs) st = dfsAll slug cs (dfs slug c st)"

text \<open>\<open>getBranchBySlug\<close>; its \<open>norm\<close> is lower case only. The slug is compared as
  \<open>String(n.node_slug || "") === String(nodeSlug)\<close>.\<close>

definition getBranchBySlug :: "unicode \<Rightarrow> tnode list \<Rightarrow> jstring \<Rightarrow> json option \<Rightarrow> tnode list" where
  "getBranchBySlug U tax brandName nodeSlug =
     (if tax = [] \<or> brandName = [] \<or> \<not> truthy nodeSlug then []
      else (case find (\<lambda>r. toLowerCase U (strOrEmpty (nameOrTitle r)) = toLowerCase U brandName) tax of
              None \<Rightarrow> []
            | Some root \<Rightarrow>
                (case snd (dfs (toStr nodeSlug) root ([], None)) of
                   None \<Rightarrow> []
                 | Some found \<Rightarrow> found)))"

text \<open>
  The picks the handler keeps from the answer \<open>cls\<close> of the classification service:
  \<open>Array.isArray(cls?.collections_node_slugs) ? cls.collections_node_slugs.filter(Boolean) : []\<close>
\<close>

definition slugPicksOf :: "json \<Rightarrow> json list" where
  "slugPicksOf cls =
     (case propOf cls ''collections_node_slugs'' of
        Some (JArr xs) \<Rightarrow> filter (\<lambda>x. truthy (Some x)) xs
      | _ \<Rightarrow> [])"


section \<open>Remote catalog gateway\<close>

text \<open>
  Every request that leaves the process is a \<open>call\<close>. The log of an invocation is the
  list of its calls in the order they were issued. The requests are named by the function
  that issues them and carry the data that function puts in the URL or in the body; the
  metafield value is kept as the JSON value that the code prints with \<open>String\<close> or
  \<open>JSON.stringify\<close>. Two texts are left out: the prompt of the rewrite request and the
  description of the product update, which \<open>formatDescription\<close> lays out.
\<close>

datatype call =
    GetProduct jstring
  | OpenAIRewrite
  | AiPickCollectionSlugs "(json option \<times> jstring) list"
  | ProductUpdate jstring "json option" "jstring list"
  | UpdateProductOptions jstring "(jstring option \<times> jstring \<times> int) list"
  | UpdateVariantOptions variant_payload
  | ListCustomCollections
  | CreateCustomCollection "json option"
  | GetCustomCollection "json option"
  | SearchFiles jstring
  | SetCollectionImage "json option" "json option"
  | UpsertCollectionMetafield "json option" string string string json
  | CollectExists "json option" "json option"
  | CreateCollect "json option" "json option"
  | MetafieldsSet jstring

text \<open>The requests that change nothing in the remote store or ask a service only.\<close>

fun isRead :: "call \<Rightarrow> bool" where
  "isRead (GetProduct gid) = True"
| "isRead OpenAIRewrite = True"
| "isRead (AiPickCollectionSlugs allowed) = True"
| "isRead ListCustomCollections = True"
| "isRead (GetCustomCollection cid) = True"
| "isRead (SearchFiles name) = True"
| "isRead (CollectExists pid cid) = True"
| "isRead _ = False"

text \<open>
  An HTTP response as the code reads it: the status, the text of the body (\<open>r.text()\<close>)
  and the parsed body (\<open>r.json()\<close>; \<open>None\<close> when the body is no JSON, and then
  \<open>r.json()\<close> rejects).
\<close>

record http =
  status :: nat
  body_text :: jstring
  body_json :: "json option"

definition ok :: "http \<Rightarrow> bool" where
  "ok r \<longleftrightarrow> 200 \<le> status r \<and> status r \<le> 299"

text \<open>
  The external services are the environment: each answers a request, given everything
  requested so far (the log, whose last entry is the request itself), so an answer may
  depend on earlier writes. \<open>Inl\<close> is a rejected promise. \<open>env_getProduct\<close> is
  \<open>getProduct\<close> (the \<open>data\<close> of the GraphQL answer, \<open>None\<close> for a null
  product), \<open>env_openAIRewrite\<close> and \<open>env_aiPick\<close> are the two calls of the
  generative service with their parsed results, \<open>env_gql\<close> is a GraphQL mutation and
  \<open>env_fetch\<close> is \<open>fetch\<close> on the REST interface.
\<close>

record env =
  env_getProduct :: "call list \<Rightarrow> exn + product option"
  env_openAIRewrite :: "call list \<Rightarrow> exn + ai_output"
  env_aiPick :: "call list \<Rightarrow> exn + json"
  env_gql :: "call list \<Rightarrow> exn + unit"
  env_fetch :: "call list \<Rightarrow> exn + http"

text \<open>
  A computation that may issue calls and may throw: it takes the log so far and returns
  its result, or the exception, with the extended log.
\<close>

type_synonym 'a io = "call list \<Rightarrow> (exn + 'a) \<times> call list"

definition ret :: "'a \<Rightarrow> 'a io" where
  "ret x = (\<lambda>log. (Inr x, log))"

definition throw :: "exn \<Rightarrow> 'a io" where
  "throw e = (\<lambda>log. (Inl e, log))"

definition bnd :: "'a io \<Rightarrow> ('a \<Rightarrow> 'b io) \<Rightarrow> 'b io" where
  "bnd m f = (\<lambda>log. case m log of (Inl e, log') \<Rightarrow> (Inl e, log') | (Inr x, log') \<Rightarrow> f x log')"

text \<open>\<open>try { m } catch (e) { h(e) }\<close>\<close>

definition catch :: "'a io \<Rightarrow> (exn \<Rightarrow> 'a io) \<Rightarrow> 'a io" where
  "catch m h = (\<lambda>log. case m log of (Inl e, log') \<Rightarrow> h e log' | (Inr x, log') \<Rightarrow> (Inr x, log'))"

definition lift :: "exn + 'a \<Rightarrow> 'a io" where
  "lift r = (\<lambda>log. (r, log))"

definition perform :: "(call list \<Rightarrow> exn + 'a) \<Rightarrow> call \<Rightarrow> 'a io" where
  "perform oracle c = (\<lambda>log. (oracle (log @ [c]), log @ [c]))"

text \<open>\<open>for (const x of xs) { await f(x) }\<close>\<close>

fun forEachIO :: "'a list \<Rightarrow> ('a \<Rightarrow> unit io) \<Rightarrow> unit io" where
  "forEachIO [] f = ret ()"
| "forEachIO (x # xs) f = bnd (f x) (\<lambda>_. forEachIO xs f)"

text \<open>A loop that collects one result per element.\<close>

fun mapIO :: "('a \<Rightarrow> 'b io) \<Rightarrow> 'a list \<Rightarrow> 'b list io" where
  "mapIO f [] = ret []"
| "mapIO f (x # xs) = bnd (f x) (\<lambda>y. bnd (mapIO f xs) (\<lambda>ys. ret (y # ys)))"

text \<open>
  \<open>fetchWithRetry\<close> with \<open>retries = 3\<close>: a response other than 429 is returned, a
  429 is tried again until three retries are used up. The argument counts the retries
  left. Waiting (\<open>rateLimit\<close>, \<open>sleep\<close>) issues no call and is not modelled.
\<close>

fun fetchRetrying :: "nat \<Rightarrow> env \<Rightarrow> call \<Rightarrow> http io" where
  "fetchRetrying 0 E c = perform (env_fetch E) c"
| "fetchRetrying (Suc k) E c =
     bnd (perform (env_fetch E) c) (\<lambda>res. if status res \<noteq> 429 then ret res else fetchRetrying k E c)"

definition fetchWithRetry :: "env \<Rightarrow> call \<Rightarrow> http io" where
  "fetchWithRetry E c = fetchRetrying 3 E c"

text \<open>\<open>r.json()\<close>\<close>

definition jsonOf :: "http \<Rightarrow> json io" where
  "jsonOf r = (case body_json r of None \<Rightarrow> throw ReadOrParseError | Some j \<Rightarrow> ret j)"

text \<open>Reading a property of a value that may be null: \<open>j.key\<close> throws on null.\<close>

definition readProp :: "json \<Rightarrow> string \<Rightarrow> json option io" where
  "readProp v k = (if v = JNull then throw TypeError else ret (propOf v k))"

text \<open>\<open>x?.key\<close>\<close>

definition optProp :: "json option \<Rightarrow> string \<Rightarrow> json option" where
  "optProp x k = (case x of None \<Rightarrow> None | Some v \<Rightarrow> propOf v k)"

text \<open>The message of \<open>throw new Error(`... failed: ${r.status} ${await r.text()}`)\<close>\<close>

definition failed :: "string \<Rightarrow> http \<Rightarrow> exn" where
  "failed what r = Failure (js what @ digits (status r) @ [32] @ body_text r)"

text \<open>\<open>String(err)\<close>\<close>

fun exnText :: "exn \<Rightarrow> jstring" where
  "exnText (Failure m) = js ''Error: '' @ m"
| "exnText (Rejected t) = t"
| "exnText TypeError = js ''TypeError''"
| "exnText ReadOrParseError = js ''SyntaxError''"
| "exnText UnsupportedFormat = js ''Error: taxonomia.json: unsupported format.''"

text \<open>
  \<open>restFindCustomCollectionByTitle\<close>: the first collection of the list whose
  normalized title is the wanted one, else the first whose normalized title starts with
  it. Reading \<open>c.title\<close> of a null entry throws. \<open>None\<close> is the null result.
\<close>

fun findColl :: "(jstring \<Rightarrow> bool) \<Rightarrow> unicode \<Rightarrow> json list \<Rightarrow> exn + json option" where
  "findColl P U [] = Inr None"
| "findColl P U (c # cs) =
     (if c = JNull then Inl TypeError
      else if P (normalizeForMatch U (propOf c ''title'')) then Inr (Some c)
      else findColl P U cs)"

definition restFindCustomCollectionByTitle :: "unicode \<Rightarrow> env \<Rightarrow> json option \<Rightarrow> json option io" where
  "restFindCustomCollectionByTitle U E title =
     bnd (fetchWithRetry E ListCustomCollections) (\<lambda>r.
       if \<not> ok r then throw (failed ''REST get custom_collections failed: '' r)
       else
         bnd (jsonOf r) (\<lambda>j.
         bnd (readProp j ''custom_collections'') (\<lambda>cc.
           let list = (case cc of Some (JArr xs) \<Rightarrow> xs | _ \<Rightarrow> []);
               want = normalizeForMatch U title
           in bnd (lift (findColl (\<lambda>t. t = want) U list)) (\<lambda>found.
                if truthy found then ret found
                else bnd (lift (findColl (\<lambda>t. startsWith t want) U list)) (\<lambda>found2.
                       ret (if truthy found2 then found2 else None))))))"

definition restCreateCustomCollection :: "env \<Rightarrow> json option \<Rightarrow> json option io" where
  "restCreateCustomCollection E title =
     bnd (fetchWithRetry E (CreateCustomCollection title)) (\<lambda>r.
       if \<not> ok r then throw (failed ''REST create custom_collection failed: '' r)
       else bnd (jsonOf r) (\<lambda>j. readProp j ''custom_collection''))"

definition restEnsureCustomCollection :: "unicode \<Rightarrow> env \<Rightarrow> json option \<Rightarrow> json option io" where
  "restEnsureCustomCollection U E title =
     bnd (restFindCustomCollectionByTitle U E title) (\<lambda>c.
       if truthy c then ret c else restCreateCustomCollection E title)"

text \<open>\<open>restGetCustomCollection\<close>: null for a 404 and for a body without the collection.\<close>

definition restGetCustomCollection :: "env \<Rightarrow> json option \<Rightarrow> json option io" where
  "restGetCustomCollection E collectionId =
     bnd (fetchWithRetry E (GetCustomCollection collectionId)) (\<lambda>r.
       if status r = 404 then ret None
       else if \<not> ok r then throw (failed ''REST get custom_collection failed: '' r)
       else bnd (jsonOf r) (\<lambda>j.
            bnd (readProp j ''custom_collection'') (\<lambda>c.
              ret (if truthy c then c else None))))"

definition restCollectExists :: "env \<Rightarrow> json option \<Rightarrow> json option \<Rightarrow> bool io" where
  "restCollectExists E productId collectionId =
     bnd (fetchWithRetry E (CollectExists productId collectionId)) (\<lambda>r.
       if \<not> ok r then throw (failed ''REST get collects failed: '' r)
       else bnd (jsonOf r) (\<lambda>j.
            bnd (readProp j ''collects'') (\<lambda>cs.
              ret (case cs of Some (JArr xs) \<Rightarrow> xs \<noteq> [] | Some (JStr s) \<Rightarrow> s \<noteq> [] | _ \<Rightarrow> False))))"

text \<open>
  The test \<open>/already|exists|has already been taken/i.test(t)\<close>. Without the unicode
  flag, ignoring case never identifies a letter outside ASCII with an ASCII letter, so
  the text is compared after lowering its ASCII capitals.
\<close>

definition asciiLower :: "jstring \<Rightarrow> jstring" where
  "asciiLower s = map (\<lambda>c. if 65 \<le> c \<and> c \<le> 90 then c + 32 else c) s"

definition saysAlreadyExists :: "jstring \<Rightarrow> bool" where
  "saysAlreadyExists t \<longleftrightarrow>
     str_includes (asciiLower t) (js ''already'') \<or> str_includes (asciiLower t) (js ''exists'')
     \<or> str_includes (asciiLower t) (js ''has already been taken'')"

text \<open>
  \<open>restCreateCollect\<close>: a 422 whose text says that the membership exists is no error,
  the function returns null (\<open>None\<close>); any other response that is not ok throws (after
  another 422 it is the second \<open>r.text()\<close> that throws, the body being used up);
  otherwise the created \<open>collect\<close> of the body is returned.
\<close>

definition restCreateCollect :: "env \<Rightarrow> json option \<Rightarrow> json option \<Rightarrow> json option io" where
  "restCreateCollect E productId collectionId =
     bnd (fetchWithRetry E (CreateCollect productId collectionId)) (\<lambda>r.
       if status r = 422 \<and> saysAlreadyExists (body_text r) then ret None
       else if status r = 422 then throw TypeError
       else if \<not> ok r then throw (failed ''REST create collect failed: '' r)
       else bnd (jsonOf r) (\<lambda>j. readProp j ''collect''))"

text \<open>\<open>restSearchFilesByFilename\<close>: the empty list for a 404.\<close>

definition restSearchFilesByFilename :: "env \<Rightarrow> jstring \<Rightarrow> json list io" where
  "restSearchFilesByFilename E filename =
     bnd (fetchWithRetry E (SearchFiles filename)) (\<lambda>r.
       if status r = 404 then ret []
       else if \<not> ok r then throw (failed ''REST files search failed: '' r)
       else bnd (jsonOf r) (\<lambda>j.
            bnd (readProp j ''files'') (\<lambda>fs.
              ret (case fs of Some (JArr xs) \<Rightarrow> xs | _ \<Rightarrow> []))))"

text \<open>
  \<open>files.find(f => (f?.filename || "").toLowerCase() === name.toLowerCase())\<close>; a truthy
  file name that is no string has no \<open>toLowerCase\<close>, and the call throws.
\<close>

fun findFile :: "unicode \<Rightarrow> jstring \<Rightarrow> json list \<Rightarrow> exn + json option" where
  "findFile U name [] = Inr None"
| "findFile U name (f # fs) =
     (case js_or (propOf f ''filename'') (Some (JStr [])) of
        Some (JStr s) \<Rightarrow>
          if toLowerCase U s = toLowerCase U name then Inr (Some f) else findFile U name fs
      | _ \<Rightarrow> Inl TypeError)"

text \<open>\<open>findImageUrlForNodeSlug\<close>: the loop over the candidate names returns the URL of
  the first hit that has a truthy \<open>url\<close>.\<close>

fun findImageAmong :: "unicode \<Rightarrow> env \<Rightarrow> jstring list \<Rightarrow> json option io" where
  "findImageAmong U E [] = ret None"
| "findImageAmong U E (name # names) =
     bnd (restSearchFilesByFilename E name) (\<lambda>files.
     bnd (lift (findFile U name files)) (\<lambda>hit.
       if truthy (optProp hit ''url'') then ret (optProp hit ''url'')
       else findImageAmong U E names))"

definition findImageUrlForNodeSlug :: "unicode \<Rightarrow> env \<Rightarrow> json option \<Rightarrow> json option io" where
  "findImageUrlForNodeSlug U E node_slug =
     findImageAmong U E
       ((if truthy node_slug
         then [toStr node_slug @ js ''.png'', toStr node_slug @ js ''.jpg'',
               toStr node_slug @ js ''.jpeg'', toStr node_slug @ js ''.webp'']
         else [])
        @ [js ''default.png'', js ''default.jpg'', js ''default.jpeg'', js ''default.webp''])"

text \<open>\<open>restUpsertCollectionMetafield\<close>: a response that is not ok is logged, not thrown.\<close>

definition restUpsertCollectionMetafield ::
  "env \<Rightarrow> json option \<Rightarrow> string \<Rightarrow> string \<Rightarrow> string \<Rightarrow> json \<Rightarrow> unit io" where
  "restUpsertCollectionMetafield E collectionId namespace key type v =
     bnd (fetchWithRetry E (UpsertCollectionMetafield collectionId namespace key type v))
       (\<lambda>r. ret ())"


section \<open>Branch ensurer\<close>

text \<open>
  An entry of \<open>ensured\<close>. \<open>None\<close> is undefined and \<open>Some JNull\<close> is null, the
  value \<open>parentId\<close> and \<open>childId\<close> have where the chain ends.
\<close>

record ensured_node =
  en_id :: "json option"
  en_title :: "json option"
  en_node_slug :: "json option"
  en_facets :: "json option"
  en_level :: nat
  en_parentId :: "json option"
  en_childId :: "json option"

definition nullish :: "json option \<Rightarrow> bool" where
  "nullish x \<longleftrightarrow> x = None \<or> x = Some JNull"

text \<open>
  The \<open>try\<close> block of the first loop of \<open>ensureBranchAndTaxonomy\<close>: the image is
  assigned only when the collection has none. \<open>coll.id\<close> throws when \<open>coll\<close> is
  undefined or null. The PUT is a plain \<open>fetch\<close> whose response is not looked at.
\<close>

definition assignImage :: "unicode \<Rightarrow> env \<Rightarrow> json option \<Rightarrow> tnode \<Rightarrow> unit io" where
  "assignImage U E coll node =
     (if nullish coll then throw TypeError
      else
        bnd (restGetCustomCollection E (optProp coll ''id'')) (\<lambda>full.
          if \<not> truthy (optProp (optProp full ''image'') ''src'')
          then bnd (findImageUrlForNodeSlug U E (getProp (props node) ''node_slug'')) (\<lambda>fileUrl.
                 if truthy fileUrl
                 then bnd (perform (env_fetch E) (SetCollectionImage (optProp coll ''id'') fileUrl))
                        (\<lambda>r. ret ())
                 else ret ())
          else ret ()))"

text \<open>One pass of the first loop, for the node at index \<open>i\<close>: ensure the collection,
  try the image and swallow what that throws, push the entry.\<close>

definition ensureNode :: "unicode \<Rightarrow> env \<Rightarrow> nat \<times> tnode \<Rightarrow> ensured_node io" where
  "ensureNode U E x =
     (case x of (i, node) \<Rightarrow>
        bnd (restEnsureCustomCollection U E (nameOrTitle node)) (\<lambda>coll.
        bnd (catch (assignImage U E coll node) (\<lambda>e. ret ())) (\<lambda>u.
          if nullish coll then throw TypeError
          else ret \<lparr>en_id = optProp coll ''id'', en_title = nameOrTitle node,
                    en_node_slug = getProp (props node) ''node_slug'',
                    en_facets = getProp (props node) ''facets'',
                    en_level = i, en_parentId = Some JNull, en_childId = Some JNull\<rparr>)))"

text \<open>The second loop: \<open>parentId\<close> is the id of the entry before, \<open>childId\<close> the id
  of the entry after, null at the two ends.\<close>

definition linkBranch :: "ensured_node list \<Rightarrow> ensured_node list" where
  "linkBranch ensured =
     map (\<lambda>(i, n). n\<lparr>en_parentId := (if i > 0 then en_id (ensured ! (i - 1)) else Some JNull),
                      en_childId := (if i < length ensured - 1 then en_id (ensured ! (i + 1))
                                     else Some JNull)\<rparr>)
       (enumerate 0 ensured)"

definition whenIO :: "bool \<Rightarrow> unit io \<Rightarrow> unit io" where
  "whenIO b m = (if b then m else ret ())"

definition setCollectionTaxonomyFields :: "env \<Rightarrow> ensured_node list \<Rightarrow> unit io" where
  "setCollectionTaxonomyFields E nodesEnsured =
     forEachIO nodesEnsured (\<lambda>n.
       bnd (restUpsertCollectionMetafield E (en_id n) ''taxonomy'' ''level'' ''number_integer''
              (JStr (digits (en_level n)))) (\<lambda>u1.
       bnd (whenIO (truthy (en_parentId n))
              (restUpsertCollectionMetafield E (en_id n) ''taxonomy'' ''parent'' ''number_integer''
                 (JStr (toStr (en_parentId n))))) (\<lambda>u2.
       bnd (restUpsertCollectionMetafield E (en_id n) ''taxonomy'' ''children'' ''json''
              (if truthy (en_childId n) then JArr [orElse (en_childId n) JNull] else JArr [])) (\<lambda>u3.
       bnd (whenIO (truthy (en_node_slug n))
              (restUpsertCollectionMetafield E (en_id n) ''taxonomy'' ''node_slug''
                 ''single_line_text_field'' (orElse (en_node_slug n) JNull))) (\<lambda>u4.
         (case en_facets n of
            Some (JArr fs) \<Rightarrow>
              whenIO (fs \<noteq> [])
                (restUpsertCollectionMetafield E (en_id n) ''taxonomy'' ''facets''
                   ''list.single_line_text_field'' (JArr fs))
          | _ \<Rightarrow> ret ()))))))"

definition ensureBranchAndTaxonomy :: "unicode \<Rightarrow> env \<Rightarrow> tnode list \<Rightarrow> ensured_node list io" where
  "ensureBranchAndTaxonomy U E branchNodes =
     bnd (mapIO (ensureNode U E) (enumerate 0 branchNodes)) (\<lambda>ensured.
     bnd (setCollectionTaxonomyFields E (linkBranch ensured)) (\<lambda>u.
       ret (linkBranch ensured)))"

section \<open>Collection attacher\<close>

text \<open>The inner loop of step 3 of the handler:
  \<open>for (const n of ensured) await restCreateCollect(productNumericId, n.id)\<close>\<close>

definition attach :: "env \<Rightarrow> json option \<Rightarrow> ensured_node list \<Rightarrow> unit io" where
  "attach E productId ensured =
     forEachIO ensured (\<lambda>n. bnd (restCreateCollect E productId (en_id n)) (\<lambda>c. ret ()))"

section \<open>The webhook handler\<close>

text \<open>
  The request: its method, whether the digest of the raw body equals the signature
  header, and \<open>JSON.parse(raw)\<close>.
\<close>

record request =
  req_method :: jstring
  req_hmac_ok :: bool
  req_body :: "exn + json"

datatype reply = Reply nat jstring

text \<open>\<open>waitForProduct\<close>: up to \<open>attempts\<close> reads; what \<open>getProduct\<close> throws is
  ignored; the first product that is there is returned, else null.\<close>

fun waitForProduct :: "nat \<Rightarrow> env \<Rightarrow> jstring \<Rightarrow> product option io" where
  "waitForProduct 0 E gid = ret None"
| "waitForProduct (Suc k) E gid =
     bnd (catch (perform (env_getProduct E) (GetProduct gid)) (\<lambda>e. ret None)) (\<lambda>pr.
       case pr of Some p \<Rightarrow> ret (Some p) | None \<Rightarrow> waitForProduct k E gid)"

text \<open>The anti-loop flag:
  \<open>p.metafields?.edges?.some(e => e.node.key === "processed" && e.node.value === "true")\<close>\<close>

definition processed :: "product \<Rightarrow> bool" where
  "processed p \<longleftrightarrow>
     (case p_metafields p of
        None \<Rightarrow> False
      | Some ms \<Rightarrow> list_ex (\<lambda>(k, v). k = js ''processed'' \<and> v = js ''true'') ms)"

text \<open>
  \<open>deriveLeafFromTags\<close>. The regular expressions are alternatives of plain words, so
  each test is a search for one of two substrings.
\<close>

definition lowerTags :: "unicode \<Rightarrow> json option \<Rightarrow> jstring list" where
  "lowerTags U tags =
     (case tags of
        Some (JArr xs) \<Rightarrow> map (\<lambda>x. toLowerCase U (strOrEmpty (Some x))) xs
      | _ \<Rightarrow> [])"

definition tagBrands :: "jstring list" where
  "tagBrands = [js ''audi'', js ''bmw'', js ''mercedes-benz'', js ''mercedes'',
                353 # js ''koda'', js ''skoda'', js ''volkswagen'', js ''vw'']"

definition brandSpelling :: "unicode \<Rightarrow> jstring \<Rightarrow> jstring" where
  "brandSpelling U brand =
     (let B0 = toUpperCase U brand;
          B1 = (if B0 = js ''SKODA'' then 352 # js ''KODA'' else B0);
          B2 = (if B1 = js ''VW'' then js ''VOLKSWAGEN'' else B1)
      in (if B2 = js ''MERCEDES'' then js ''MERCEDES-BENZ'' else B2))"

definition deriveLeafFromTags :: "unicode \<Rightarrow> json option \<Rightarrow> jstring option" where
  "deriveLeafFromTags U tags =
     (let t = lowerTags U tags in
      case find (\<lambda>b. b \<in> set t) tagBrands of
        None \<Rightarrow> None
      | Some brand \<Rightarrow>
          (let B = brandSpelling U brand in
           if list_ex (\<lambda>x. str_includes x (js ''platnicky'') \<or> str_includes x (js ''platn'' @ [237] @ js ''cky'')) t
             then Some (B @ js '' Brzdov'' @ [233] @ js '' platni'' @ [269] @ js ''ky'')
           else if list_ex (\<lambda>x. str_includes x (js ''kotuc'') \<or> str_includes x (js ''kot'' @ [250] @ js ''c'')) t
             then Some (B @ js '' Brzdov'' @ [253] @ js '' kot'' @ [250] @ [269])
           else if js ''brzdy'' \<in> set t then Some (B @ js '' Brzdy'')
           else if js ''pneumatiky'' \<in> set t then Some (B @ js '' Pneumatiky'')
           else if js ''olej'' \<in> set t then Some (B @ js '' Olej'')
           else if list_ex (\<lambda>x. str_includes x (js ''interier'') \<or> str_includes x (js ''interi'' @ [233] @ js ''r'')) t
             then Some (B @ js '' Interi'' @ [233] @ js ''r'')
           else if list_ex (\<lambda>x. str_includes x (js ''exterier'') \<or> str_includes x (js ''exteri'' @ [233] @ js ''r'')) t
             then Some (B @ js '' Exteri'' @ [233] @ js ''r'')
           else Some (B @ js '' Komponenty'')))"

text \<open>The fixed category names of the second fallback.\<close>

definition categories :: "jstring list" where
  "categories = [js ''Interi'' @ [233] @ js ''r'',
                   js ''Exteri'' @ [233] @ js ''r'',
                   js ''Komponenty'',
                   js ''Brzdy'',
                   js ''Pneumatiky'',
                   js ''Olej'',
                   js ''Doplnky'',
                   js ''Oble'' @ [269] @ js ''enie'',
                   js ''Starostlivos'' @ [357] @ js '' o auto'',
                   js ''Vychyt'' @ [225] @ js ''vky'']"

text \<open>\<open>/[a-z]/i.test(b)\<close>: the string holds an ASCII letter.\<close>

definition hasAsciiLetter :: "jstring \<Rightarrow> bool" where
  "hasAsciiLetter s \<longleftrightarrow> list_ex (\<lambda>c. (65 \<le> c \<and> c \<le> 90) \<or> (97 \<le> c \<and> c \<le> 122)) s"

text \<open>Adding to a \<open>Set\<close> keeps the first insertion of a value.\<close>

definition addToSet :: "'a \<Rightarrow> 'a list \<Rightarrow> 'a list" where
  "addToSet x xs = (if x \<in> set xs then xs else xs @ [x])"

definition inTaxonomy :: "unicode \<Rightarrow> tnode list \<Rightarrow> jstring \<Rightarrow> bool" where
  "inTaxonomy U tax leaf \<longleftrightarrow> getTaxonomyBranchNodesFromLeaf U tax leaf \<noteq> []"

text \<open>First fallback: \<open>out.collections\<close> is empty or no array, and a leaf name guessed
  from the tags of the webhook body is in the taxonomy.\<close>

definition tagFallback :: "unicode \<Rightarrow> tnode list \<Rightarrow> json \<Rightarrow> jstring list option \<Rightarrow> jstring list option" where
  "tagFallback U tax body colls =
     (if orNil colls \<noteq> [] then colls
      else
        (case deriveLeafFromTags U
                (js_or (js_or (propOf body ''tags'') (optProp (propOf body ''product'') ''tags''))
                       (Some (JArr []))) of
           None \<Rightarrow> colls
         | Some guess \<Rightarrow> if guess \<noteq> [] \<and> inTaxonomy U tax guess then Some [guess] else colls))"

text \<open>Second fallback: sub tags that name a taxonomy node, then every pair of a brand
  and a category among the base tags whose joined name is in the taxonomy.\<close>

definition aiTagFallback :: "unicode \<Rightarrow> tnode list \<Rightarrow> ai_output \<Rightarrow> jstring list option \<Rightarrow> jstring list option" where
  "aiTagFallback U tax out colls =
     (if orNil colls \<noteq> [] then colls
      else
        (let sub = orNil (out_subtags out);
             base = orNil (out_base_tags out);
             c1 = fold (\<lambda>s acc. if trim s \<noteq> [] \<and> inTaxonomy U tax (trim s)
                                  then addToSet (trim s) acc else acc) sub [];
             brands = filter (\<lambda>b. hasAsciiLetter b \<and> b \<notin> set categories) base;
             cats = filter (\<lambda>c. c \<in> set categories) base;
             c2 = fold (\<lambda>b acc. fold (\<lambda>c acc'. if inTaxonomy U tax (trim (b @ [32] @ c))
                                                  then addToSet (trim (b @ [32] @ c)) acc' else acc')
                                   cats acc) brands c1
         in if c2 \<noteq> [] then Some c2 else colls))"

text \<open>\<open>normTag\<close>\<close>

definition normTag :: "unicode \<Rightarrow> jstring \<Rightarrow> jstring" where
  "normTag U s = trim (stripMarks (normalizeNFD U (toLowerCase U s)))"

text \<open>
  The test of the guard that drops brand collections: one or more capital letters of the
  class (A to Z and the Slovak capitals with diacritics) followed by a white space.
\<close>

definition isBrandCapital :: "int \<Rightarrow> bool" where
  "isBrandCapital c \<longleftrightarrow> (65 \<le> c \<and> c \<le> 90) \<or> c \<in> {193, 268, 270, 201, 205, 313, 317, 327, 211, 212, 340, 352, 356, 218, 221, 381}"

definition startsWithCapitalWord :: "jstring \<Rightarrow> bool" where
  "startsWithCapitalWord c \<longleftrightarrow>
     takeWhile isBrandCapital c \<noteq> []
     \<and> (case dropWhile isBrandCapital c of [] \<Rightarrow> False | x # xs \<Rightarrow> isSpace x)"

definition universalGuard :: "unicode \<Rightarrow> product \<Rightarrow> ai_output \<Rightarrow> jstring list option \<Rightarrow> jstring list option" where
  "universalGuard U p out colls =
     (let allTagsNow = map (normTag U) (p_tags p @ orNil (out_base_tags out) @ orNil (out_subtags out));
          brandHits = filter (\<lambda>b. normTag U b \<in> set allTagsNow) (map fst brandMap);
          isUniversal = (normTag U (js ''Univerz'' @ [225] @ js ''lny'') \<in> set allTagsNow)
      in if isUniversal \<or> length brandHits \<noteq> 1
         then Some (filter (\<lambda>c. \<not> startsWithCapitalWord c) (orNil colls))
         else colls)"

text \<open>The final safety filter keeps the names that are in the taxonomy.\<close>

definition taxonomyFilter :: "unicode \<Rightarrow> tnode list \<Rightarrow> jstring list option \<Rightarrow> jstring list option" where
  "taxonomyFilter U tax colls = map_option (filter (\<lambda>c. inTaxonomy U tax (trim c))) colls"

text \<open>\<open>out.collections\<close> as it stands when step 3 of the handler reads it.\<close>

definition finalCollections ::
  "unicode \<Rightarrow> tnode list \<Rightarrow> json \<Rightarrow> product \<Rightarrow> ai_output \<Rightarrow> jstring list option" where
  "finalCollections U tax body p out =
     taxonomyFilter U tax
       (universalGuard U p out
          (aiTagFallback U tax out
             (tagFallback U tax body (out_collections out))))"


section \<open>Links of an ensured branch as a graph\<close>

text \<open>
  The parent-to-child links that an ensured branch writes to the store, as edges between
  collection identifiers: one edge from the id of an entry to its \<open>childId\<close>, unless
  the \<open>childId\<close> is null.
\<close>

definition childEdges :: "ensured_node list \<Rightarrow> (json option \<times> json option) set" where
  "childEdges ensured =
     (\<lambda>n. (en_id n, en_childId n)) ` set (filter (\<lambda>n. en_childId n \<noteq> Some JNull) ensured)"

section \<open>A remote store for the examples\<close>

text \<open>
  Modelled from the spec: the remote store, which is no code of this repository. The
  specification describes it as an object store that answers a duplicate membership
  creation with an error reporting that the membership already exists. Its memberships
  are a list of pairs of product and collection. \<open>unique\<close> says whether the store
  refuses a duplicate (the store of the specification) or accepts it.
\<close>

fun applyCall :: "bool \<Rightarrow> call \<Rightarrow> (json option \<times> json option) list \<Rightarrow> (json option \<times> json option) list" where
  "applyCall unique (CreateCollect p c) ms =
     (if unique \<and> (p, c) \<in> set ms then ms else ms @ [(p, c)])"
| "applyCall unique _ ms = ms"

text \<open>The memberships of the store after the calls of a log, from the initial ones.\<close>

definition storeCollects ::
  "bool \<Rightarrow> (json option \<times> json option) list \<Rightarrow> call list \<Rightarrow> (json option \<times> json option) list" where
  "storeCollects unique ms0 log = fold (applyCall unique) log ms0"

definition created :: http where
  "created = \<lparr>status = 201, body_text = js ''created'',
              body_json = Some (JObj [(js ''collect'', JObj [(js ''id'', JNum 1)])])\<rparr>"

definition alreadyExists :: http where
  "alreadyExists = \<lparr>status = 422, body_text = js ''already exists in this collection'',
                    body_json = Some (JObj [(js ''errors'', JStr (js ''already exists''))])\<rparr>"

definition collectsFound :: "bool \<Rightarrow> http" where
  "collectsFound b =
     \<lparr>status = 200, body_text = js ''collects'',
      body_json = Some (JObj [(js ''collects'', JArr (if b then [JObj []] else []))])\<rparr>"

definition emptyOk :: http where
  "emptyOk = \<lparr>status = 200, body_text = js ''ok'', body_json = Some (JObj [])\<rparr>"

text \<open>
  The answers of the store to the membership requests; \<open>base\<close> answers every other
  request. The log handed to the environment ends with the request itself.
\<close>

definition storeFetch ::
  "bool \<Rightarrow> (json option \<times> json option) list \<Rightarrow> (call \<Rightarrow> http) \<Rightarrow> call list \<Rightarrow> exn + http" where
  "storeFetch unique ms0 base log =
     (case rev log of
        [] \<Rightarrow> Inr emptyOk
      | CreateCollect p c # earlier \<Rightarrow>
          if unique \<and> (p, c) \<in> set (storeCollects unique ms0 (rev earlier))
          then Inr alreadyExists else Inr created
      | CollectExists p c # earlier \<Rightarrow>
          Inr (collectsFound ((p, c) \<in> set (storeCollects unique ms0 (rev earlier))))
      | x # earlier \<Rightarrow> Inr (base x))"

definition noProduct :: "call list \<Rightarrow> exn + product option" where
  "noProduct log = Inr None"

definition noRewrite :: "call list \<Rightarrow> exn + ai_output" where
  "noRewrite log = Inl (Rejected (js ''no answer''))"

definition noPick :: "call list \<Rightarrow> exn + json" where
  "noPick log = Inl (Rejected (js ''no answer''))"

definition gqlOk :: "call list \<Rightarrow> exn + unit" where
  "gqlOk log = Inr ()"

definition storeEnv :: "bool \<Rightarrow> (json option \<times> json option) list \<Rightarrow> env" where
  "storeEnv unique ms0 =
     \<lparr>env_getProduct = noProduct, env_openAIRewrite = noRewrite, env_aiPick = noPick,
      env_gql = gqlOk, env_fetch = storeFetch unique ms0 (\<lambda>c. emptyOk)\<rparr>"

text \<open>
  The attach loop of the later variant of the handler, which looks the membership up
  before it creates it and catches what either request throws:
  \<open>try { const exists = await restCollectExists(pid, node.id);
  if (!exists) await restCreateCollect(pid, node.id); } catch (e) { ... }\<close>,
  skipped as a whole in dry-run mode.
\<close>

definition attachChecked :: "bool \<Rightarrow> env \<Rightarrow> json option \<Rightarrow> json option list \<Rightarrow> unit io" where
  "attachChecked dryRun E productId ids =
     forEachIO ids (\<lambda>cid.
       if dryRun then ret ()
       else catch
              (bnd (restCollectExists E productId cid) (\<lambda>exists.
                 if exists then ret ()
                 else bnd (restCreateCollect E productId cid) (\<lambda>c. ret ())))
              (\<lambda>e. ret ()))"

text \<open>
  Stores that list given collections, each with an image: the collection titled
  AUDI Exterier with the id 7 and the collection titled AUDI with the id 3. And the branch
  of a root AUDI and its child AUDI Exterier.
\<close>

definition ex_collection :: json where
  "ex_collection =
     JObj [(js ''id'', JNum 7), (js ''title'', JStr (js ''AUDI Exterier'')),
           (js ''image'', JObj [(js ''src'', JStr (js ''https://cdn/7.png''))])]"

definition ex_collection_audi :: json where
  "ex_collection_audi =
     JObj [(js ''id'', JNum 3), (js ''title'', JStr (js ''AUDI'')),
           (js ''image'', JObj [(js ''src'', JStr (js ''https://cdn/3.png''))])]"

definition ex_base :: "json list \<Rightarrow> call \<Rightarrow> http" where
  "ex_base colls c =
     (case c of
        ListCustomCollections \<Rightarrow>
          \<lparr>status = 200, body_text = js ''list'',
           body_json = Some (JObj [(js ''custom_collections'', JArr colls)])\<rparr>
      | GetCustomCollection cid \<Rightarrow>
          \<lparr>status = 200, body_text = js ''one'',
           body_json = Some (JObj [(js ''custom_collection'', ex_collection)])\<rparr>
      | _ \<Rightarrow> emptyOk)"

definition ex_env :: "json list \<Rightarrow> env" where
  "ex_env colls =
     \<lparr>env_getProduct = noProduct, env_openAIRewrite = noRewrite, env_aiPick = noPick,
      env_gql = gqlOk, env_fetch = storeFetch True [] (ex_base colls)\<rparr>"

definition ex_leaf :: tnode where
  "ex_leaf = TNode [(js ''name'', JStr (js ''AUDI Exterier''))] []"

definition ex_branch :: "tnode list" where
  "ex_branch = [TNode [(js ''name'', JStr (js ''AUDI''))] [ex_leaf], ex_leaf]"

definition ex_ensured :: "ensured_node list" where
  "ex_ensured =
     [\<lparr>en_id = Some (JNum 7), en_title = Some (JStr (js ''AUDI'')), en_node_slug = None,
       en_facets = None, en_level = 0, en_parentId = Some JNull, en_childId = Some (JNum 7)\<rparr>,
      \<lparr>en_id = Some (JNum 7), en_title = Some (JStr (js ''AUDI Exterier'')), en_node_slug = None,
       en_facets = None, en_level = 1, en_parentId = Some (JNum 7), en_childId = Some JNull\<rparr>]"

definition ex_ensured2 :: "ensured_node list" where
  "ex_ensured2 =
     [\<lparr>en_id = Some (JNum 3), en_title = Some (JStr (js ''AUDI'')), en_node_slug = None,
       en_facets = None, en_level = 0, en_parentId = Some JNull, en_childId = Some (JNum 7)\<rparr>,
      \<lparr>en_id = Some (JNum 7), en_title = Some (JStr (js ''AUDI Exterier'')), en_node_slug = None,
       en_facets = None, en_level = 1, en_parentId = Some (JNum 3), en_childId = Some JNull\<rparr>]"


text \<open>
  \<open>optionNames\<close>: the options of the answer that have a truthy name, each with
  \<open>o.position ?? i + 1\<close>, where \<open>i\<close> counts the options that were kept.
\<close>

definition optionNames :: "ai_output \<Rightarrow> (jstring \<times> int) list" where
  "optionNames out =
     map (\<lambda>(i, ao). (orNil (ao_name ao),
                      (case ao_position ao of Some p \<Rightarrow> p | None \<Rightarrow> int i + 1)))
       (enumerate 0 (filter (\<lambda>ao. orNil (ao_name ao) \<noteq> []) (orNil (out_options out))))"

text \<open>\<open>restUpdateProductOptions\<close>: each new name goes with the id of the existing
  option at its position, if there is one; a response that is not ok throws.\<close>

definition restUpdateProductOptions ::
  "env \<Rightarrow> json option \<Rightarrow> (jstring \<times> int) list \<Rightarrow> product_option list \<Rightarrow> unit io" where
  "restUpdateProductOptions E numericProductId names existingOptions =
     bnd (perform (env_fetch E)
            (UpdateProductOptions (toStr numericProductId)
               (map (\<lambda>(name, pos).
                       (map_option opt_id (find (\<lambda>e. opt_position e = pos) existingOptions),
                        name, pos))
                  names))) (\<lambda>r.
       if \<not> ok r then throw (failed ''REST options update failed: '' r)
       else bnd (jsonOf r) (\<lambda>j. ret ()))"

definition restUpdateVariantOptions :: "env \<Rightarrow> variant_payload \<Rightarrow> unit io" where
  "restUpdateVariantOptions E payload =
     bnd (perform (env_fetch E) (UpdateVariantOptions payload)) (\<lambda>r.
       if \<not> ok r then throw (failed ''REST variant update failed: '' r)
       else bnd (jsonOf r) (\<lambda>j. ret ()))"

text \<open>
  The retry loop around the variant update: an error whose text contains \<open>404\<close> is
  tried again, three attempts in all, after which the loop ends without an error; any
  other error is thrown on.
\<close>

fun updateVariantRetrying :: "nat \<Rightarrow> env \<Rightarrow> variant_payload \<Rightarrow> unit io" where
  "updateVariantRetrying 0 E payload = ret ()"
| "updateVariantRetrying (Suc k) E payload =
     catch (restUpdateVariantOptions E payload)
       (\<lambda>err. if str_includes (exnText err) (js ''404'')
              then updateVariantRetrying k E payload else throw err)"

definition remapVariants :: "env \<Rightarrow> product \<Rightarrow> ai_output \<Rightarrow> unit io" where
  "remapVariants E p out =
     forEachIO (p_variants p) (\<lambda>node.
       updateVariantRetrying 3 E
         (variantUpdateRequest (p_options p) (orNil (out_options out)) node))"

text \<open>
  The slug-only classification of the handler. Without a detected brand the service is
  not asked and the picks stay empty; what the service call throws is caught, and the
  picks stay empty as well.
\<close>

definition classifySlugs ::
  "unicode \<Rightarrow> tnode list \<Rightarrow> env \<Rightarrow> jstring option \<Rightarrow> json list io" where
  "classifySlugs U tax E detectedBrand =
     (case detectedBrand of
        None \<Rightarrow> ret []
      | Some brand \<Rightarrow>
          catch
            (bnd (perform (env_aiPick E)
                    (AiPickCollectionSlugs (allowedLeaves (getBrandLeaves U tax brand))))
               (\<lambda>cls. ret (slugPicksOf cls)))
            (\<lambda>e. ret []))"

text \<open>Ensure the branch and attach the product to each of its collections.\<close>

definition ensureAndAttach :: "unicode \<Rightarrow> env \<Rightarrow> json option \<Rightarrow> tnode list \<Rightarrow> unit io" where
  "ensureAndAttach U E productNumericId branchNodes =
     (if branchNodes = [] then ret ()
      else bnd (ensureBranchAndTaxonomy U E branchNodes) (\<lambda>ensured.
             attach E productNumericId ensured))"

text \<open>
  Step 3 of the handler: the slug picks, if there are any and a brand was detected;
  otherwise the collection names, if there are any; otherwise nothing.
\<close>

definition collectionsStage ::
  "unicode \<Rightarrow> tnode list \<Rightarrow> env \<Rightarrow> json option \<Rightarrow> jstring option \<Rightarrow> json list
     \<Rightarrow> jstring list option \<Rightarrow> unit io" where
  "collectionsStage U tax E productNumericId detectedBrand slugPicks colls =
     (if slugPicks \<noteq> [] \<and> detectedBrand \<noteq> None
      then forEachIO slugPicks (\<lambda>slug.
             ensureAndAttach U E productNumericId
               (getBranchBySlug U tax (orNil detectedBrand) (Some slug)))
      else if orNil colls \<noteq> []
      then forEachIO (orNil colls) (\<lambda>leafColTitle.
             if trim leafColTitle = [] then ret ()
             else ensureAndAttach U E productNumericId
                    (getTaxonomyBranchNodesFromLeaf U tax (trim leafColTitle)))
      else ret ())"

text \<open>
  The handler after the product has been fetched and found unprocessed: the rewrite, the
  classification, the product update, the option names, the variants, the collections and
  at last the processed flag.
\<close>

definition enrich ::
  "unicode \<Rightarrow> tnode list \<Rightarrow> env \<Rightarrow> json \<Rightarrow> json option \<Rightarrow> product \<Rightarrow> reply io" where
  "enrich U tax E body bodyId p =
     bnd (perform (env_openAIRewrite E) OpenAIRewrite) (\<lambda>out.
     bnd (classifySlugs U tax E (detectBrandFromProduct U p out)) (\<lambda>slugPicks.
     bnd (perform (env_gql E)
            (ProductUpdate (p_id p) (out_title out)
               (orNil (out_base_tags out) @ orNil (out_subtags out) @ orNil (out_extra_tags out))))
         (\<lambda>u1.
     bnd (whenIO (optionNames out \<noteq> [])
            (restUpdateProductOptions E bodyId (optionNames out) (p_options p))) (\<lambda>u2.
     bnd (remapVariants E p out) (\<lambda>u3.
     bnd (collectionsStage U tax E bodyId (detectBrandFromProduct U p out) slugPicks
            (finalCollections U tax body p out)) (\<lambda>u4.
     bnd (perform (env_gql E) (MetafieldsSet (p_id p))) (\<lambda>u5.
       ret (Reply 200 (js ''OK'')))))))))"

text \<open>The body of the \<open>try\<close> block of the handler.\<close>

definition handlerBody :: "unicode \<Rightarrow> exn + json \<Rightarrow> env \<Rightarrow> request \<Rightarrow> reply io" where
  "handlerBody U file E req =
     (if req_method req \<noteq> js ''POST'' then ret (Reply 405 (js ''Method not allowed''))
      else if \<not> req_hmac_ok req then ret (Reply 401 (js ''HMAC failed''))
      else
        bnd (lift (req_body req)) (\<lambda>body.
        bnd (readProp body ''id'') (\<lambda>bodyId.
        bnd (waitForProduct 12 E (js ''gid://shopify/Product/'' @ toStr bodyId)) (\<lambda>pr.
          case pr of
            None \<Rightarrow> ret (Reply 202 (js ''Product not ready yet''))
          | Some p \<Rightarrow>
              if processed p then ret (Reply 200 (js ''Already processed''))
              else enrich U (fst (loadTaxonomia None file)) E body bodyId p))))"

text \<open>
  The handler: every exception ends in the reply 500. The result is the reply and the log
  of the calls of the invocation. \<open>file\<close> is what reading and parsing the taxonomy file
  gives, should the handler come to load it.
\<close>

definition handler :: "unicode \<Rightarrow> exn + json \<Rightarrow> env \<Rightarrow> request \<Rightarrow> reply \<times> call list" where
  "handler U file E req =
     (case catch (handlerBody U file E req) (\<lambda>e. ret (Reply 500 (js ''Error''))) [] of
        (Inr r, log) \<Rightarrow> (r, log)
      | (Inl e, log) \<Rightarrow> (Reply 500 (js ''Error''), log))"


section \<open>Classes of calls and scenarios of the handler\<close>

text \<open>The calls that ask the classification service, and the calls that create a
  membership of a product in a collection.\<close>

fun isPick :: "call \<Rightarrow> bool" where
  "isPick (AiPickCollectionSlugs allowed) = True"
| "isPick _ = False"

fun isCreateCollect :: "call \<Rightarrow> bool" where
  "isCreateCollect (CreateCollect pid cid) = True"
| "isCreateCollect _ = False"

text \<open>A computation extends the log, and every call it adds satisfies \<open>P\<close>.\<close>

definition callsOnly :: "(call \<Rightarrow> bool) \<Rightarrow> 'a io \<Rightarrow> bool" where
  "callsOnly P m \<longleftrightarrow> (\<forall>log. \<exists>ext. snd (m log) = log @ ext \<and> list_all P ext)"

text \<open>
  A webhook request for the product 1, and that product: a steering wheel of a vendor
  whose name, like the title, holds no brand keyword; \<open>ms\<close> are its metafields.
\<close>

definition ex_request :: request where
  "ex_request = \<lparr>req_method = js ''POST'', req_hmac_ok = True,
                  req_body = Inr (JObj [(js ''id'', JNum 1)])\<rparr>"

definition ex_product :: "(jstring \<times> jstring) list option \<Rightarrow> product" where
  "ex_product ms =
     \<lparr>p_id = js ''gid://shopify/Product/1'', p_title = js ''Volant'', p_vendor = js ''Dielna'',
      p_descriptionHtml = [], p_tags = [], p_options = [], p_variants = [],
      p_metafields = ms\<rparr>"

text \<open>An answer of the rewrite service that names the collection Interier and no tags.\<close>

definition ex_out :: ai_output where
  "ex_out = \<lparr>out_title = Some (JStr (js ''Volant'')), out_description = None,
              out_base_tags = None, out_subtags = None, out_extra_tags = None,
              out_collections = Some [js ''Interier''], out_options = None\<rparr>"

definition ex_collection_interier :: json where
  "ex_collection_interier =
     JObj [(js ''id'', JNum 7), (js ''title'', JStr (js ''Interier'')),
           (js ''image'', JObj [(js ''src'', JStr (js ''https://cdn/7.png''))])]"

text \<open>
  A shop and its services: the product \<open>p\<close> is there at once, the rewrite service
  answers \<open>out\<close>, the classification service answers \<open>cls\<close>, the store lists the
  collections \<open>colls\<close> and holds no membership.
\<close>

definition ex_shop :: "product \<Rightarrow> ai_output \<Rightarrow> json \<Rightarrow> json list \<Rightarrow> env" where
  "ex_shop p out cls colls =
     \<lparr>env_getProduct = (\<lambda>log. Inr (Some p)), env_openAIRewrite = (\<lambda>log. Inr out),
      env_aiPick = (\<lambda>log. Inr cls), env_gql = gqlOk,
      env_fetch = storeFetch True [] (ex_base colls)\<rparr>"

text \<open>A taxonomy file that is a tree already: the one root Interier.\<close>

definition ex_file :: "exn + json" where
  "ex_file = Inr (JArr [JObj [(js ''name'', JStr (js ''Interier''))]])"

text \<open>
  A taxonomy whose root AUDI carries the slug \<open>audi\<close> and whose only leaf carries the
  slug \<open>volanty\<close>, and an answer of the classification service that picks the root, a
  slug the taxonomy does not know, and an empty string.
\<close>

definition ex_slug_forest :: "tnode list" where
  "ex_slug_forest =
     [TNode [(js ''name'', JStr (js ''AUDI'')), (js ''node_slug'', JStr (js ''audi''))]
        [TNode [(js ''name'', JStr (js ''AUDI Volanty'')),
                (js ''node_slug'', JStr (js ''volanty''))] []]]"

definition ex_cls :: json where
  "ex_cls = JObj [(js ''collections_node_slugs'',
                   JArr [JStr (js ''audi''), JStr (js ''felgy''), JStr []])]"


section \<open>Properties of the variant remapper\<close>

lemma enumerate_snoc: "enumerate k (xs @ [x]) = enumerate k xs @ [(k + length xs, x)]"
  by (simp add: enumerate_append_eq)

lemma posByName_snoc:
  "posByName (xs @ [x]) = (posByName xs)(opt_name x \<mapsto> length xs + 1)"
  by (simp add: posByName_def enumerate_snoc)

lemma byName_snoc:
  "byName (xs @ [x]) = (byName xs)(opt_name x \<mapsto> (length xs, opt_values x))"
  by (simp add: byName_def enumerate_snoc)

lemma posByName_None: "posByName popts n = None \<longleftrightarrow> n \<notin> opt_name ` set popts"
proof (induction popts rule: rev_induct)
  case Nil
  show ?case by (simp add: posByName_def)
next
  case (snoc x xs)
  then show ?case by (auto simp: posByName_snoc)
qed

lemma posByName_Some:
  "posByName popts n = Some k \<Longrightarrow>
     1 \<le> k \<and> k \<le> length popts \<and> opt_name (popts ! (k - 1)) = n
     \<and> byName popts n = Some (k - 1, opt_values (popts ! (k - 1)))
     \<and> (\<forall>j. k \<le> j \<and> j < length popts \<longrightarrow> opt_name (popts ! j) \<noteq> n)"
proof (induction popts arbitrary: k rule: rev_induct)
  case Nil
  then show ?case by (simp add: posByName_def)
next
  case (snoc x xs)
  show ?case
  proof (cases "opt_name x = n")
    case True
    with snoc.prems have "k = length xs + 1" by (simp add: posByName_snoc)
    with True show ?thesis by (auto simp: byName_snoc)
  next
    case False
    with snoc.prems have "posByName xs n = Some k" by (simp add: posByName_snoc)
    from snoc.IH[OF this] False show ?thesis
      by (auto simp: byName_snoc nth_append less_Suc_eq)
  qed
qed

lemma optionPos_known:
  assumes "n \<in> opt_name ` set popts"
  shows "1 \<le> optionPos popts n \<and> optionPos popts n \<le> length popts
     \<and> opt_name (popts ! (optionPos popts n - 1)) = n
     \<and> oldValuesOf popts n = opt_values (popts ! (optionPos popts n - 1))
     \<and> (\<forall>j. optionPos popts n \<le> j \<and> j < length popts \<longrightarrow> opt_name (popts ! j) \<noteq> n)"
proof -
  from assms obtain k where k: "posByName popts n = Some k"
    using posByName_None[of popts n] by (cases "posByName popts n") auto
  from posByName_Some[OF k] k show ?thesis
    by (simp add: optionPos_def oldValuesOf_def)
qed

lemma optionPos_unknown: "n \<notin> opt_name ` set popts \<Longrightarrow> optionPos popts n = 0"
  using posByName_None[of popts n] by (simp add: optionPos_def)


lemma indexOf_Some:
  "indexOf xs v = Some i \<longleftrightarrow> i < length xs \<and> xs ! i = v \<and> (\<forall>j<i. xs ! j \<noteq> v)"
proof (induction xs arbitrary: i)
  case Nil
  show ?case by simp
next
  case (Cons x xs)
  show ?case
  proof (cases "x = v")
    case True
    then show ?thesis by (cases i) auto
  next
    case False
    show ?thesis
    proof (cases i)
      case 0
      with False show ?thesis by auto
    next
      case (Suc m)
      have "(\<forall>j<Suc m. (x # xs) ! j \<noteq> v) \<longleftrightarrow> (\<forall>j<m. xs ! j \<noteq> v)"
        using False by (auto simp: less_Suc_eq_0_disj)
      with Suc False Cons.IH[of m] show ?thesis by auto
    qed
  qed
qed

lemma assignOpt_skip:
  "optionPos popts (so_name so) \<notin> {1, 2, 3} \<Longrightarrow> assignOpt popts nv so acc = acc"
  by (simp add: assignOpt_def Let_def)

lemma fold_assignOpt_filter:
  "fold (assignOpt popts nv) (filter (\<lambda>so. optionPos popts (so_name so) \<in> {1, 2, 3}) sos) acc
     = fold (assignOpt popts nv) sos acc"
  by (induction sos arbitrary: acc) (simp_all add: assignOpt_skip del: insert_iff)

lemma find_rev_snoc: "find P (rev (xs @ [x])) = (if P x then Some x else find P (rev xs))"
  by simp

lemma remap_slots:
  "newOpt1 (fold (assignOpt popts nv) sos \<lparr>newOpt1 = None, newOpt2 = None, newOpt3 = None\<rparr>)
     = map_option (newValFor popts nv) (find (\<lambda>so. optionPos popts (so_name so) = 1) (rev sos))
   \<and> newOpt2 (fold (assignOpt popts nv) sos \<lparr>newOpt1 = None, newOpt2 = None, newOpt3 = None\<rparr>)
     = map_option (newValFor popts nv) (find (\<lambda>so. optionPos popts (so_name so) = 2) (rev sos))
   \<and> newOpt3 (fold (assignOpt popts nv) sos \<lparr>newOpt1 = None, newOpt2 = None, newOpt3 = None\<rparr>)
     = map_option (newValFor popts nv) (find (\<lambda>so. optionPos popts (so_name so) = 3) (rev sos))"
proof (induction sos rule: rev_induct)
  case Nil
  show ?case by simp
next
  case (snoc x xs)
  then show ?case by (simp add: assignOpt_def Let_def)
qed


lemma ex_nv1: "newValuesByPos ex_aopts 1 = Some [269 # js ''ierna'', js ''biela'']"
  by (simp add: newValuesByPos_def ex_aopts_def)

lemma ex_pos: "posByName ex_popts (js ''Color'') = Some 1"
  by (simp add: posByName_def ex_popts_def)

lemma ex_by: "byName ex_popts (js ''Color'') = Some (0, [js ''Black'', js ''White''])"
  by (simp add: byName_def ex_popts_def)





text \<open>
  Claim C10. The lookup of an option name that the product does not have yields
  position 0 and raises nothing. The three optional slots of the update request each hold
  the new value of the last selected option at position 1, 2 or 3, and nothing else:
  dropping every selected option whose name is unknown or whose position is above 3 from
  the variant leaves the request as it is.
\<close>

theorem unknown_or_high_position_not_in_update:
  "(so_name so \<notin> opt_name ` set popts \<longrightarrow> optionPos popts (so_name so) = 0)
   \<and> vp_option1 (variantUpdateRequest popts aopts v)
       = map_option (newValFor popts (newValuesByPos aopts))
           (find (\<lambda>so. optionPos popts (so_name so) = 1) (rev (selectedOptions v)))
   \<and> vp_option2 (variantUpdateRequest popts aopts v)
       = map_option (newValFor popts (newValuesByPos aopts))
           (find (\<lambda>so. optionPos popts (so_name so) = 2) (rev (selectedOptions v)))
   \<and> vp_option3 (variantUpdateRequest popts aopts v)
       = map_option (newValFor popts (newValuesByPos aopts))
           (find (\<lambda>so. optionPos popts (so_name so) = 3) (rev (selectedOptions v)))
   \<and> variantUpdateRequest popts aopts v
       = variantUpdateRequest popts aopts
           (v\<lparr>selectedOptions :=
                filter (\<lambda>so. so_name so \<in> opt_name ` set popts \<and> optionPos popts (so_name so) \<le> 3)
                  (selectedOptions v)\<rparr>)"
proof -
  have eq: "(\<lambda>so. so_name so \<in> opt_name ` set popts \<and> optionPos popts (so_name so) \<le> 3)
          = (\<lambda>so. optionPos popts (so_name so) \<in> {1, 2, 3})"
  proof
    fix so
    show "(so_name so \<in> opt_name ` set popts \<and> optionPos popts (so_name so) \<le> 3)
          = (optionPos popts (so_name so) \<in> {1, 2, 3})"
      using optionPos_known[of "so_name so" popts] optionPos_unknown[of "so_name so" popts]
      by (cases "so_name so \<in> opt_name ` set popts") auto
  qed
  have "remapVariant popts (newValuesByPos aopts) v
        = remapVariant popts (newValuesByPos aopts)
           (v\<lparr>selectedOptions :=
                filter (\<lambda>so. so_name so \<in> opt_name ` set popts \<and> optionPos popts (so_name so) \<le> 3)
                  (selectedOptions v)\<rparr>)"
    unfolding eq remapVariant_def
    using fold_assignOpt_filter[of popts "newValuesByPos aopts" "selectedOptions v"]
    by simp
  then show ?thesis
    using remap_slots[of popts "newValuesByPos aopts" "selectedOptions v"]
    by (simp add: variantUpdateRequest_def variantPayload_def remapVariant_def optionPos_unknown)
qed

theorem unknown_or_high_position_not_in_update_witness:
  "js ''Size'' \<notin> opt_name ` set ex_popts
   \<and> optionPos ex_popts (js ''Size'') = 0
   \<and> variantUpdateRequest ex_popts ex_aopts ex_variant
       = \<lparr>vp_id = Some (js ''56''), vp_option1 = Some (269 # js ''ierna''),
          vp_option2 = None, vp_option3 = None\<rparr>
   \<and> variantUpdateRequest ex_popts ex_aopts ex_variant
       = variantUpdateRequest ex_popts ex_aopts
           (ex_variant\<lparr>selectedOptions := [\<lparr>so_name = js ''Color'', so_value = js ''Black''\<rparr>]\<rparr>)"
proof -
  let ?so = "\<lparr>so_name = js ''Size'', so_value = js ''M''\<rparr>"
  note t = unknown_or_high_position_not_in_update[of ?so ex_popts ex_aopts ex_variant]
  have m: "js ''Size'' \<notin> opt_name ` set ex_popts"
    by code_simp
  have f: "filter (\<lambda>so. so_name so \<in> opt_name ` set ex_popts \<and> optionPos ex_popts (so_name so) \<le> 3)
             (selectedOptions ex_variant) = [\<lparr>so_name = js ''Color'', so_value = js ''Black''\<rparr>]"
    by code_simp
  have r: "variantUpdateRequest ex_popts ex_aopts ex_variant
       = \<lparr>vp_id = Some (js ''56''), vp_option1 = Some (269 # js ''ierna''),
          vp_option2 = None, vp_option3 = None\<rparr>"
    by code_simp
  from t have "so_name ?so \<notin> opt_name ` set ex_popts \<longrightarrow> optionPos ex_popts (so_name ?so) = 0"
    by (rule conjunct1)
  with m have a: "optionPos ex_popts (js ''Size'') = 0"
    by simp
  from t have e: "variantUpdateRequest ex_popts ex_aopts ex_variant
       = variantUpdateRequest ex_popts ex_aopts
           (ex_variant\<lparr>selectedOptions :=
                filter (\<lambda>so. so_name so \<in> opt_name ` set ex_popts \<and> optionPos ex_popts (so_name so) \<le> 3)
                  (selectedOptions ex_variant)\<rparr>)"
    by (elim conjE)
  from m a r e[unfolded f] show ?thesis
    by (intro conjI)
qed

section \<open>Properties of the taxonomy store\<close>


lemma mapE_Inl:
  "mapE f xs = Inl e \<Longrightarrow> \<exists>x\<in>set xs. f x = Inl e"
  by (induction xs) (auto split: sum.splits)

lemma js_eq_iff [simp]: "js a = js b \<longleftrightarrow> a = b"
proof -
  have "inj (of_char :: char \<Rightarrow> int)"
    by (rule injI) simp
  then show ?thesis
    unfolding js_def by (simp add: inj_map_eq_map)
qed







declare walk.simps [simp del]





lemma startsWith_append: "startsWith (p @ b) p"
  by (simp add: startsWith_def)







lemmas string_defs = normalize_def normString_def strOrEmpty_def trim_def isSpace_def
  stripMarks_def unifyDashes_def ascii_def js_def startsWith_def


lemma branch_empty_forest: "getTaxonomyBranchNodesFromLeaf U [] leafName = []"
  by (simp add: getTaxonomyBranchNodesFromLeaf_def)





lemma ex_branch:
  "getTaxonomyBranchNodesFromLeaf ascii ex_forest (js ''bmw exteri'' @ [233] @ js ''r'')
   = [ex_root (js ''BMW''), ex_child (js ''BMW'')]"
  by (simp add: getTaxonomyBranchNodesFromLeaf_def ex_forest_def ex_root_def ex_child_def
        nameOrTitle_def js_or_def getProp_def string_defs)




text \<open>
  Claim C8. \<open>loadTaxonomia\<close> always returns a forest and keeps it; it throws nothing.
  When reading, parsing or expanding the definition fails, the forest is empty and stays
  empty on later calls, and on the empty forest the branch lookups and the leaf listing
  return the empty sequence. File and parse errors, a null definition, a definition that
  is neither a tree nor a pair with a non-empty brand list and a template, and a template
  with a null child are such failures.
\<close>

theorem load_never_throws_and_fails_open:
  "(\<exists>forest. loadTaxonomia taxonomia file = (forest, Some forest))
   \<and> (loadBody file = Inl e \<longrightarrow>
        loadTaxonomia None file = ([], Some [])
        \<and> loadTaxonomia (snd (loadTaxonomia None file)) file' = ([], Some []))
   \<and> getTaxonomyBranchNodesFromLeaf U [] leafName = []
   \<and> getBranchBySlug U [] brandName nodeSlug = []
   \<and> getBrandLeaves U [] brandName = []
   \<and> loadBody (Inl e) = Inl e
   \<and> loadBody (Inr JNull) = Inl TypeError
   \<and> (\<not> isPreExpandedTree raw \<and> raw \<noteq> JNull
        \<and> ((\<forall>bs. propOf raw ''BRANDS'' \<noteq> Some (JArr bs)) \<or> propOf raw ''BRANDS'' = Some (JArr [])
            \<or> \<not> truthy (propOf raw ''TEMPLATE''))
        \<longrightarrow> loadBody (Inr raw) = Inl UnsupportedFormat)
   \<and> loadBody (Inr (JObj [(js ''BRANDS'', JArr [JStr (js ''AUDI'')]),
                           (js ''TEMPLATE'', JObj [(js ''children'', JArr [JNull])])]))
       = Inl TypeError"
proof (intro conjI impI)
  show "\<exists>forest. loadTaxonomia taxonomia file = (forest, Some forest)"
    by (auto simp: loadTaxonomia_def split: option.splits sum.splits)
next
  assume "loadBody file = Inl e"
  then show "loadTaxonomia None file = ([], Some [])"
    and "loadTaxonomia (snd (loadTaxonomia None file)) file' = ([], Some [])"
    by (simp_all add: loadTaxonomia_def)
next
  show "getTaxonomyBranchNodesFromLeaf U [] leafName = []"
    by (simp add: getTaxonomyBranchNodesFromLeaf_def)
  show "getBranchBySlug U [] brandName nodeSlug = []"
    by (simp add: getBranchBySlug_def)
  show "getBrandLeaves U [] brandName = []"
    by (simp add: getBrandLeaves_def)
  show "loadBody (Inl e) = Inl e"
    by (simp add: loadBody_def)
  show "loadBody (Inr JNull) = Inl TypeError"
    by (simp add: loadBody_def isPreExpandedTree_def)
next
  assume "\<not> isPreExpandedTree raw \<and> raw \<noteq> JNull
        \<and> ((\<forall>bs. propOf raw ''BRANDS'' \<noteq> Some (JArr bs)) \<or> propOf raw ''BRANDS'' = Some (JArr [])
            \<or> \<not> truthy (propOf raw ''TEMPLATE''))"
  then show "loadBody (Inr raw) = Inl UnsupportedFormat"
    by (auto simp: loadBody_def Let_def split: option.splits json.splits)
next
  show "loadBody (Inr (JObj [(js ''BRANDS'', JArr [JStr (js ''AUDI'')]),
                           (js ''TEMPLATE'', JObj [(js ''children'', JArr [JNull])])]))
       = Inl TypeError"
    by (simp add: loadBody_def isPreExpandedTree_def getProp_def expandBrand_def
        templateRoot_def orElse_def walkProps_def ensureName_def setProp_def delProp_def
        replaceBrandTokens_def replaceAll_def placeholder_def js_or_def string_defs walk.simps)
qed

theorem load_never_throws_and_fails_open_witness:
  "loadBody (Inr (JNum 5)) = Inl UnsupportedFormat
   \<and> loadTaxonomia None (Inr (JNum 5)) = ([], Some [])
   \<and> loadTaxonomia (snd (loadTaxonomia None (Inr (JNum 5)))) (Inr ex_template) = ([], Some [])
   \<and> getTaxonomyBranchNodesFromLeaf ascii (fst (loadTaxonomia None (Inr (JNum 5)))) (js ''AUDI'') = []"
proof -
  note t = load_never_throws_and_fails_open[of None "Inr (JNum 5)" UnsupportedFormat
      "Inr ex_template" ascii "js ''AUDI''" "js ''AUDI''" None "JNum 5"]
  have h: "\<not> isPreExpandedTree (JNum 5) \<and> JNum 5 \<noteq> JNull
        \<and> ((\<forall>bs. propOf (JNum 5) ''BRANDS'' \<noteq> Some (JArr bs)) \<or> propOf (JNum 5) ''BRANDS'' = Some (JArr [])
            \<or> \<not> truthy (propOf (JNum 5) ''TEMPLATE''))"
    by (simp add: isPreExpandedTree_def)
  with t have l: "loadBody (Inr (JNum 5)) = Inl UnsupportedFormat"
    by blast
  with t have a: "loadTaxonomia None (Inr (JNum 5)) = ([], Some [])
        \<and> loadTaxonomia (snd (loadTaxonomia None (Inr (JNum 5)))) (Inr ex_template) = ([], Some [])"
    by blast
  from t have b: "getTaxonomyBranchNodesFromLeaf ascii [] (js ''AUDI'') = []"
    by blast
  from a have "fst (loadTaxonomia None (Inr (JNum 5))) = []"
    by simp
  with b have c: "getTaxonomyBranchNodesFromLeaf ascii (fst (loadTaxonomia None (Inr (JNum 5)))) (js ''AUDI'') = []"
    by simp
  from l a c show ?thesis by blast
qed

section \<open>Properties of the branch ensurer\<close>

lemma bnd_Inr:
  "bnd m f l = (Inr y, l') \<Longrightarrow> \<exists>x l1. m l = (Inr x, l1) \<and> f x l1 = (Inr y, l')"
  by (auto simp: bnd_def split: prod.splits sum.splits)

lemma mapIO_Inr:
  "mapIO f xs l = (Inr ys, l') \<Longrightarrow>
     length ys = length xs \<and> (\<forall>i<length xs. \<exists>l1 l2. f (xs ! i) l1 = (Inr (ys ! i), l2))"
proof (induction xs arbitrary: ys l l')
  case Nil
  then show ?case by (simp add: ret_def)
next
  case (Cons x xs)
  from bnd_Inr[OF Cons.prems[unfolded mapIO.simps]]
  obtain y l1 where y: "f x l = (Inr y, l1)"
    and r: "bnd (mapIO f xs) (\<lambda>ys. ret (y # ys)) l1 = (Inr ys, l')"
    by blast
  from bnd_Inr[OF r] obtain ys' l2 where m: "mapIO f xs l1 = (Inr ys', l2)" and e: "ys = y # ys'"
    by (auto simp: ret_def)
  from Cons.IH[OF m] have len: "length ys' = length xs"
    and ih: "\<forall>i<length xs. \<exists>l1 l2. f (xs ! i) l1 = (Inr (ys' ! i), l2)"
    by simp_all
  show ?case
  proof (intro conjI allI impI)
    show "length ys = length (x # xs)" using len e by simp
  next
    fix i assume "i < length (x # xs)"
    then show "\<exists>l1 l2. f ((x # xs) ! i) l1 = (Inr (ys ! i), l2)"
      using y ih e by (cases i) auto
  qed
qed

lemma ensureNode_Inr:
  assumes "ensureNode U E (i, node) l = (Inr n, l')"
  shows "en_level n = i \<and> en_title n = nameOrTitle node"
proof -
  from bnd_Inr[OF assms[unfolded ensureNode_def prod.case]]
  obtain coll l1 where
    r: "bnd (catch (assignImage U E coll node) (\<lambda>e. ret ()))
          (\<lambda>u. if nullish coll then throw TypeError
               else ret \<lparr>en_id = optProp coll ''id'', en_title = nameOrTitle node,
                    en_node_slug = getProp (props node) ''node_slug'',
                    en_facets = getProp (props node) ''facets'',
                    en_level = i, en_parentId = Some JNull, en_childId = Some JNull\<rparr>) l1
        = (Inr n, l')"
    by blast
  from bnd_Inr[OF r] show ?thesis
    by (auto simp: ret_def throw_def split: if_splits)
qed

lemma linkBranch_length [simp]: "length (linkBranch es) = length es"
  by (simp add: linkBranch_def)

lemma linkBranch_nth:
  "i < length es \<Longrightarrow>
     linkBranch es ! i
       = (es ! i)\<lparr>en_parentId := (if i > 0 then en_id (es ! (i - 1)) else Some JNull),
                  en_childId := (if i < length es - 1 then en_id (es ! (i + 1)) else Some JNull)\<rparr>"
  by (simp add: linkBranch_def nth_enumerate_eq)

lemma linkBranch_links:
  assumes "i < length es"
  shows "en_id (linkBranch es ! i) = en_id (es ! i)"
    and "en_level (linkBranch es ! i) = en_level (es ! i)"
    and "en_title (linkBranch es ! i) = en_title (es ! i)"
    and "en_parentId (linkBranch es ! i)
          = (if i = 0 then Some JNull else en_id (linkBranch es ! (i - 1)))"
    and "en_childId (linkBranch es ! i)
          = (if i = length (linkBranch es) - 1 then Some JNull else en_id (linkBranch es ! (i + 1)))"
  using assms by (auto simp: linkBranch_nth)

text \<open>The links of a list whose entries are linked by position run from an entry to its
  successor, so with pairwise distinct ids they form a simple path.\<close>

lemma chain_edges:
  assumes links: "\<forall>i<length es. en_childId (es ! i)
                    = (if i = length es - 1 then Some JNull else en_id (es ! (i + 1)))"
  shows "childEdges es \<subseteq> {(en_id (es ! i), en_id (es ! (i + 1))) | i. i + 1 < length es}"
proof
  fix e assume "e \<in> childEdges es"
  then obtain n where n: "n \<in> set es" "en_childId n \<noteq> Some JNull" "e = (en_id n, en_childId n)"
    by (auto simp: childEdges_def)
  then obtain i where i: "i < length es" "es ! i = n"
    by (auto simp: in_set_conv_nth)
  with links n have "i \<noteq> length es - 1" and "en_childId n = en_id (es ! (i + 1))"
    by (auto split: if_splits)
  with i n show "e \<in> {(en_id (es ! i), en_id (es ! (i + 1))) | i. i + 1 < length es}"
    by (intro CollectI exI[of _ i]) auto
qed

lemma chain_edge_index:
  assumes links: "\<forall>i<length es. en_childId (es ! i)
                    = (if i = length es - 1 then Some JNull else en_id (es ! (i + 1)))"
    and e: "(x, y) \<in> childEdges es"
  shows "\<exists>i. i + 1 < length es \<and> x = en_id (es ! i) \<and> y = en_id (es ! (i + 1))"
  using chain_edges[OF links] e by auto

lemma distinct_ids_index:
  assumes "distinct (map en_id es)" "i < length es" "j < length es"
    "en_id (es ! i) = en_id (es ! j)"
  shows "i = j"
proof -
  from assms have "map en_id es ! i = map en_id es ! j" by simp
  with assms show ?thesis
    by (simp add: nth_eq_iff_index_eq del: nth_map)
qed

lemma indexOf_distinct_nth:
  assumes "distinct xs" "i < length xs"
  shows "indexOf xs (xs ! i) = Some i"
proof -
  from assms have "\<forall>j<i. xs ! j \<noteq> xs ! i"
    by (auto simp: nth_eq_iff_index_eq)
  with assms show ?thesis by (simp add: indexOf_Some)
qed

lemma chain_simple_path:
  assumes links: "\<forall>i<length es. en_childId (es ! i)
                    = (if i = length es - 1 then Some JNull else en_id (es ! (i + 1)))"
    and d: "distinct (map en_id es)"
  shows "acyclic (childEdges es) \<and> single_valued (childEdges es)
         \<and> single_valued ((childEdges es)\<inverse>)"
proof (intro conjI)
  let ?rank = "\<lambda>x. case indexOf (map en_id es) x of Some i \<Rightarrow> length es - i | None \<Rightarrow> 0"
  have rk: "\<And>i. i < length es \<Longrightarrow> ?rank (en_id (es ! i)) = length es - i"
  proof -
    fix i assume i: "i < length es"
    then have "indexOf (map en_id es) (map en_id es ! i) = Some i"
      using indexOf_distinct_nth[OF d, of i] by simp
    with i show "?rank (en_id (es ! i)) = length es - i" by simp
  qed
  show "acyclic (childEdges es)"
  proof (rule acyclicI_order[where f = ?rank])
    fix a b assume "(a, b) \<in> childEdges es"
    from chain_edge_index[OF links this]
    obtain i where i: "i + 1 < length es" "a = en_id (es ! i)" "b = en_id (es ! (i + 1))"
      by blast
    then have "?rank a = length es - i" "?rank b = length es - (i + 1)"
      using rk[of i] rk[of "i + 1"] by simp_all
    with i show "?rank b < ?rank a" by simp
  qed
  show "single_valued (childEdges es)"
  proof (rule single_valuedI)
    fix x y z assume xy: "(x, y) \<in> childEdges es" and xz: "(x, z) \<in> childEdges es"
    from chain_edge_index[OF links xy]
    obtain i where i: "i + 1 < length es" "x = en_id (es ! i)" "y = en_id (es ! (i + 1))"
      by blast
    from chain_edge_index[OF links xz]
    obtain j where j: "j + 1 < length es" "x = en_id (es ! j)" "z = en_id (es ! (j + 1))"
      by blast
    from i j have "i = j" using distinct_ids_index[OF d, of i j] by simp
    with i j show "y = z" by simp
  qed
  show "single_valued ((childEdges es)\<inverse>)"
  proof (rule single_valuedI)
    fix x y z assume "(x, y) \<in> (childEdges es)\<inverse>" and "(x, z) \<in> (childEdges es)\<inverse>"
    then have yx: "(y, x) \<in> childEdges es" and zx: "(z, x) \<in> childEdges es" by simp_all
    from chain_edge_index[OF links yx]
    obtain i where i: "i + 1 < length es" "y = en_id (es ! i)" "x = en_id (es ! (i + 1))"
      by blast
    from chain_edge_index[OF links zx]
    obtain j where j: "j + 1 < length es" "z = en_id (es ! j)" "x = en_id (es ! (j + 1))"
      by blast
    from i j have "i + 1 = j + 1" using distinct_ids_index[OF d, of "i + 1" "j + 1"] by simp
    with i j show "y = z" by simp
  qed
qed

lemma ensureBranch_Inr:
  assumes "ensureBranchAndTaxonomy U E branchNodes log = (Inr ensured, log')"
  shows "\<exists>es. ensured = linkBranch es \<and> length es = length branchNodes
              \<and> (\<forall>i<length branchNodes. en_level (es ! i) = i
                     \<and> en_title (es ! i) = nameOrTitle (branchNodes ! i))"
proof -
  from bnd_Inr[OF assms[unfolded ensureBranchAndTaxonomy_def]]
  obtain es l1 where m: "mapIO (ensureNode U E) (enumerate 0 branchNodes) log = (Inr es, l1)"
    and r: "bnd (setCollectionTaxonomyFields E (linkBranch es)) (\<lambda>u. ret (linkBranch es)) l1
            = (Inr ensured, log')"
    by blast
  from bnd_Inr[OF r] have e: "ensured = linkBranch es"
    by (auto simp: ret_def)
  from mapIO_Inr[OF m] have len: "length es = length branchNodes"
    and each: "\<forall>i<length branchNodes.
                 \<exists>l1 l2. ensureNode U E (enumerate 0 branchNodes ! i) l1 = (Inr (es ! i), l2)"
    by simp_all
  have "\<forall>i<length branchNodes. en_level (es ! i) = i
          \<and> en_title (es ! i) = nameOrTitle (branchNodes ! i)"
  proof (intro allI impI)
    fix i assume i: "i < length branchNodes"
    with each obtain l1 l2 where
      "ensureNode U E (i, branchNodes ! i) l1 = (Inr (es ! i), l2)"
      by (auto simp: nth_enumerate_eq)
    from ensureNode_Inr[OF this]
    show "en_level (es ! i) = i \<and> en_title (es ! i) = nameOrTitle (branchNodes ! i)" .
  qed
  with e len show ?thesis by blast
qed

text \<open>
  Claim C5, as amended. When \<open>ensureBranchAndTaxonomy\<close> returns, the sequence has one
  entry per node of the branch, the entry at index \<open>i\<close> has level \<open>i\<close> and the title
  of the node at that index, its \<open>parentId\<close> is the id of the entry before (null for the
  first) and its \<open>childId\<close> the id of the entry after (null for the last). When the
  entries have pairwise distinct collection ids, the links between the collections form a
  simple path: no cycle, at most one child and at most one parent for each collection.
\<close>

theorem ensured_branch_levels_and_links:
  "ensureBranchAndTaxonomy U E branchNodes log = (Inr ensured, log') \<longrightarrow>
     length ensured = length branchNodes
     \<and> (\<forall>i<length ensured.
          en_level (ensured ! i) = i
          \<and> en_title (ensured ! i) = nameOrTitle (branchNodes ! i)
          \<and> en_parentId (ensured ! i) = (if i = 0 then Some JNull else en_id (ensured ! (i - 1)))
          \<and> en_childId (ensured ! i)
               = (if i = length ensured - 1 then Some JNull else en_id (ensured ! (i + 1))))
     \<and> (distinct (map en_id ensured) \<longrightarrow>
          acyclic (childEdges ensured) \<and> single_valued (childEdges ensured)
          \<and> single_valued ((childEdges ensured)\<inverse>))"
proof
  assume a: "ensureBranchAndTaxonomy U E branchNodes log = (Inr ensured, log')"
  from ensureBranch_Inr[OF a] obtain es where e: "ensured = linkBranch es"
    and len: "length es = length branchNodes"
    and lv: "\<forall>i<length branchNodes. en_level (es ! i) = i
                     \<and> en_title (es ! i) = nameOrTitle (branchNodes ! i)"
    by blast
  have links: "\<forall>i<length ensured.
          en_level (ensured ! i) = i
          \<and> en_title (ensured ! i) = nameOrTitle (branchNodes ! i)
          \<and> en_parentId (ensured ! i) = (if i = 0 then Some JNull else en_id (ensured ! (i - 1)))
          \<and> en_childId (ensured ! i)
               = (if i = length ensured - 1 then Some JNull else en_id (ensured ! (i + 1)))"
  proof (intro allI impI)
    fix i assume "i < length ensured"
    then have i: "i < length es" by (simp add: e)
    from linkBranch_links[OF i] lv i len e
    show "en_level (ensured ! i) = i
          \<and> en_title (ensured ! i) = nameOrTitle (branchNodes ! i)
          \<and> en_parentId (ensured ! i) = (if i = 0 then Some JNull else en_id (ensured ! (i - 1)))
          \<and> en_childId (ensured ! i)
               = (if i = length ensured - 1 then Some JNull else en_id (ensured ! (i + 1)))"
      by simp
  qed
  then have ch: "\<forall>i<length ensured. en_childId (ensured ! i)
                    = (if i = length ensured - 1 then Some JNull else en_id (ensured ! (i + 1)))"
    by blast
  show "length ensured = length branchNodes
     \<and> (\<forall>i<length ensured.
          en_level (ensured ! i) = i
          \<and> en_title (ensured ! i) = nameOrTitle (branchNodes ! i)
          \<and> en_parentId (ensured ! i) = (if i = 0 then Some JNull else en_id (ensured ! (i - 1)))
          \<and> en_childId (ensured ! i)
               = (if i = length ensured - 1 then Some JNull else en_id (ensured ! (i + 1))))
     \<and> (distinct (map en_id ensured) \<longrightarrow>
          acyclic (childEdges ensured) \<and> single_valued (childEdges ensured)
          \<and> single_valued ((childEdges ensured)\<inverse>))"
    using links chain_simple_path[OF ch] e len by simp
qed

lemma ex_nocycle:
  "ensureBranchAndTaxonomy ascii (ex_env [ex_collection, ex_collection_audi]) ex_branch []
     = (Inr ex_ensured2,
        [ListCustomCollections, GetCustomCollection (Some (JNum 3)),
         ListCustomCollections, GetCustomCollection (Some (JNum 7)),
         UpsertCollectionMetafield (Some (JNum 3)) ''taxonomy'' ''level'' ''number_integer'' (JStr (js ''0'')),
         UpsertCollectionMetafield (Some (JNum 3)) ''taxonomy'' ''children'' ''json'' (JArr [JNum 7]),
         UpsertCollectionMetafield (Some (JNum 7)) ''taxonomy'' ''level'' ''number_integer'' (JStr (js ''1'')),
         UpsertCollectionMetafield (Some (JNum 7)) ''taxonomy'' ''parent'' ''number_integer'' (JStr (js ''3'')),
         UpsertCollectionMetafield (Some (JNum 7)) ''taxonomy'' ''children'' ''json'' (JArr [])])"
  by code_simp

theorem ensured_branch_levels_and_links_witness:
  "fst (ensureBranchAndTaxonomy ascii (ex_env [ex_collection, ex_collection_audi]) ex_branch [])
     = Inr ex_ensured2
   \<and> distinct (map en_id ex_ensured2)
   \<and> length ex_ensured2 = length ex_branch
   \<and> en_level (ex_ensured2 ! 1) = 1
   \<and> en_parentId (ex_ensured2 ! 1) = en_id (ex_ensured2 ! 0)
   \<and> acyclic (childEdges ex_ensured2)"
proof -
  note t = ensured_branch_levels_and_links[of ascii "ex_env [ex_collection, ex_collection_audi]"
             ex_branch "[]" ex_ensured2, unfolded ex_nocycle]
  have d: "distinct (map en_id ex_ensured2)"
    by (simp add: ex_ensured2_def)
  have l: "(1::nat) < length ex_ensured2"
    by (simp add: ex_ensured2_def)
  from t have len: "length ex_ensured2 = length ex_branch"
    by blast
  from t l have "en_level (ex_ensured2 ! 1) = 1
      \<and> en_parentId (ex_ensured2 ! 1) = (if (1::nat) = 0 then Some JNull else en_id (ex_ensured2 ! (1 - 1)))"
    by blast
  then have lv: "en_level (ex_ensured2 ! 1) = 1 \<and> en_parentId (ex_ensured2 ! 1) = en_id (ex_ensured2 ! 0)"
    by simp
  from t d have ac: "acyclic (childEdges ex_ensured2)"
    by blast
  from d len lv ac show ?thesis
    by (simp add: ex_nocycle)
qed

lemma ex_cycle:
  "fst (ensureBranchAndTaxonomy ascii (ex_env [ex_collection]) ex_branch []) = Inr ex_ensured"
  by code_simp

theorem ensured_branch_self_loop_counterexample:
  "fst (ensureBranchAndTaxonomy ascii (ex_env [ex_collection]) ex_branch []) = Inr ex_ensured
   \<and> en_childId (ex_ensured ! 0) = en_id (ex_ensured ! 0)
   \<and> \<not> acyclic (childEdges ex_ensured)"
proof -
  have e: "(Some (JNum 7), Some (JNum 7)) \<in> childEdges ex_ensured"
    by (simp add: childEdges_def ex_ensured_def image_iff)
  then have "(Some (JNum 7), Some (JNum 7)) \<in> (childEdges ex_ensured)\<^sup>+"
    by (rule r_into_trancl)
  then have "\<not> acyclic (childEdges ex_ensured)"
    by (auto simp: acyclic_def)
  moreover have "en_childId (ex_ensured ! 0) = en_id (ex_ensured ! 0)"
    by (simp add: ex_ensured_def)
  ultimately show ?thesis using ex_cycle by simp
qed


section \<open>Properties of the collection attacher\<close>

lemma storeCollects_snoc:
  "storeCollects u ms0 (log @ [c]) = applyCall u c (storeCollects u ms0 log)"
  by (simp add: storeCollects_def)

lemma storeCollects_snoc2:
  "storeCollects u ms0 (log @ [a, b]) = applyCall u b (applyCall u a (storeCollects u ms0 log))"
  by (simp add: storeCollects_def)

lemma storeCollects_append:
  "storeCollects u ms0 (log @ ext) = fold (applyCall u) ext (storeCollects u ms0 log)"
  by (simp add: storeCollects_def)

lemma says_alreadyExists: "saysAlreadyExists (body_text alreadyExists)"
  by code_simp

lemma fetchWithRetry_once:
  assumes "env_fetch E (log @ [c]) = Inr r" "status r \<noteq> 429"
  shows "fetchWithRetry E c log = (Inr r, log @ [c])"
  using assms by (simp add: fetchWithRetry_def numeral_3_eq_3 bnd_def perform_def ret_def)

lemma restCreateCollect_422:
  assumes "env_fetch E (log @ [CreateCollect p c]) = Inr r" "status r = 422"
    "saysAlreadyExists (body_text r)"
  shows "restCreateCollect E p c log = (Inr None, log @ [CreateCollect p c])"
proof -
  from assms have "fetchWithRetry E (CreateCollect p c) log = (Inr r, log @ [CreateCollect p c])"
    by (intro fetchWithRetry_once) simp_all
  with assms show ?thesis
    by (simp add: restCreateCollect_def bnd_def ret_def)
qed

lemma storeFetch_create:
  "storeFetch u ms0 base (log @ [CreateCollect p c])
     = (if u \<and> (p, c) \<in> set (storeCollects u ms0 log) then Inr alreadyExists else Inr created)"
  by (simp add: storeFetch_def)

lemma storeFetch_exists:
  "storeFetch u ms0 base (log @ [CollectExists p c])
     = Inr (collectsFound ((p, c) \<in> set (storeCollects u ms0 log)))"
  by (simp add: storeFetch_def)

lemma restCreateCollect_store:
  "restCreateCollect (storeEnv u ms0) p c log
     = (if u \<and> (p, c) \<in> set (storeCollects u ms0 log) then Inr None
        else Inr (Some (JObj [(js ''id'', JNum 1)])),
        log @ [CreateCollect p c])"
proof (cases "u \<and> (p, c) \<in> set (storeCollects u ms0 log)")
  case True
  then have "env_fetch (storeEnv u ms0) (log @ [CreateCollect p c]) = Inr alreadyExists"
    by (auto simp: storeEnv_def storeFetch_create)
  moreover have "status alreadyExists = 422"
    by (simp add: alreadyExists_def)
  ultimately have "restCreateCollect (storeEnv u ms0) p c log
                   = (Inr None, log @ [CreateCollect p c])"
    using says_alreadyExists by (rule restCreateCollect_422)
  with True show ?thesis
    by auto
next
  case False
  then have "env_fetch (storeEnv u ms0) (log @ [CreateCollect p c]) = Inr created"
    by (auto simp: storeEnv_def storeFetch_create)
  then have "fetchWithRetry (storeEnv u ms0) (CreateCollect p c) log
             = (Inr created, log @ [CreateCollect p c])"
    by (intro fetchWithRetry_once) (simp_all add: created_def)
  with False show ?thesis
    by (simp add: restCreateCollect_def bnd_def ret_def created_def ok_def jsonOf_def
          readProp_def getProp_def)
qed

lemma restCollectExists_store:
  "restCollectExists (storeEnv u ms0) p c log
     = (Inr ((p, c) \<in> set (storeCollects u ms0 log)), log @ [CollectExists p c])"
proof -
  have "env_fetch (storeEnv u ms0) (log @ [CollectExists p c])
        = Inr (collectsFound ((p, c) \<in> set (storeCollects u ms0 log)))"
    by (simp add: storeEnv_def storeFetch_exists)
  then have "fetchWithRetry (storeEnv u ms0) (CollectExists p c) log
             = (Inr (collectsFound ((p, c) \<in> set (storeCollects u ms0 log))),
                log @ [CollectExists p c])"
    by (intro fetchWithRetry_once) (simp_all add: collectsFound_def)
  then show ?thesis
    by (simp add: restCollectExists_def bnd_def ret_def collectsFound_def ok_def jsonOf_def
          readProp_def getProp_def)
qed

lemma attach_store:
  "attach (storeEnv u ms0) p [n] log = (Inr (), log @ [CreateCollect p (en_id n)])"
  by (simp add: attach_def bnd_def ret_def restCreateCollect_store)

lemma attachChecked_store:
  "attachChecked False (storeEnv u ms0) p [c] log
     = (Inr (), if (p, c) \<in> set (storeCollects u ms0 log) then log @ [CollectExists p c]
                else log @ [CollectExists p c, CreateCollect p c])"
  by (simp add: attachChecked_def bnd_def ret_def catch_def restCollectExists_store
        restCreateCollect_store)

lemma count_list_append1: "count_list (xs @ [x]) y = count_list xs y + (if x = y then 1 else 0)"
  by (induction xs) auto

text \<open>
  Claim C2. A rejection of the creation with status 422 whose text says that the
  membership already exists makes \<open>restCreateCollect\<close> return null: no error. The store
  of the specification answers a duplicate creation in this way, and against it two runs
  of the attach loop for one product and one collection both succeed and leave exactly one
  membership for the pair (if there was at most one before). The later variant of the
  loop, which looks the membership up before it creates it, leaves exactly one as well,
  whether the store refuses duplicates or not.
\<close>

theorem attach_twice_one_membership:
  "(env_fetch E (log @ [CreateCollect p c]) = Inr r \<and> status r = 422
      \<and> saysAlreadyExists (body_text r)
      \<longrightarrow> restCreateCollect E p c log = (Inr None, log @ [CreateCollect p c]))
   \<and> saysAlreadyExists (body_text alreadyExists)
   \<and> fst (attach (storeEnv True ms0) p [n] log) = Inr ()
   \<and> fst (attach (storeEnv True ms0) p [n] (snd (attach (storeEnv True ms0) p [n] log))) = Inr ()
   \<and> (count_list (storeCollects True ms0 log) (p, en_id n) \<le> 1 \<longrightarrow>
        count_list
          (storeCollects True ms0
             (snd (attach (storeEnv True ms0) p [n] (snd (attach (storeEnv True ms0) p [n] log)))))
          (p, en_id n) = 1)
   \<and> fst (attachChecked False (storeEnv u ms0) p [c]
            (snd (attachChecked False (storeEnv u ms0) p [c] log))) = Inr ()
   \<and> (count_list (storeCollects u ms0 log) (p, c) \<le> 1 \<longrightarrow>
        count_list
          (storeCollects u ms0
             (snd (attachChecked False (storeEnv u ms0) p [c]
                     (snd (attachChecked False (storeEnv u ms0) p [c] log)))))
          (p, c) = 1)"
proof (intro conjI impI)
  assume "env_fetch E (log @ [CreateCollect p c]) = Inr r \<and> status r = 422
      \<and> saysAlreadyExists (body_text r)"
  then show "restCreateCollect E p c log = (Inr None, log @ [CreateCollect p c])"
    using restCreateCollect_422 by blast
next
  show "saysAlreadyExists (body_text alreadyExists)" by (rule says_alreadyExists)
  show "fst (attach (storeEnv True ms0) p [n] log) = Inr ()"
    by (simp add: attach_store)
  show "fst (attach (storeEnv True ms0) p [n] (snd (attach (storeEnv True ms0) p [n] log))) = Inr ()"
    by (simp add: attach_store)
  show "fst (attachChecked False (storeEnv u ms0) p [c]
            (snd (attachChecked False (storeEnv u ms0) p [c] log))) = Inr ()"
    by (simp add: attachChecked_store)
next
  assume a: "count_list (storeCollects True ms0 log) (p, en_id n) \<le> 1"
  let ?ms = "storeCollects True ms0 log"
  have m: "(p, en_id n) \<in> set ?ms \<longleftrightarrow> count_list ?ms (p, en_id n) = 1"
    using a count_list_0_iff[of ?ms "(p, en_id n)"] by auto
  show "count_list
          (storeCollects True ms0
             (snd (attach (storeEnv True ms0) p [n] (snd (attach (storeEnv True ms0) p [n] log)))))
          (p, en_id n) = 1"
  proof (cases "(p, en_id n) \<in> set ?ms")
    case True
    with m show ?thesis
      by (simp add: attach_store storeCollects_snoc2)
  next
    case False
    then have "count_list ?ms (p, en_id n) = 0"
      by (simp add: count_list_0_iff)
    with False show ?thesis
      by (simp add: attach_store storeCollects_snoc2 count_list_append1)
  qed
next
  assume a: "count_list (storeCollects u ms0 log) (p, c) \<le> 1"
  let ?ms = "storeCollects u ms0 log"
  have m: "(p, c) \<in> set ?ms \<longleftrightarrow> count_list ?ms (p, c) = 1"
    using a count_list_0_iff[of ?ms "(p, c)"] by auto
  show "count_list
          (storeCollects u ms0
             (snd (attachChecked False (storeEnv u ms0) p [c]
                     (snd (attachChecked False (storeEnv u ms0) p [c] log)))))
          (p, c) = 1"
  proof (cases "(p, c) \<in> set ?ms")
    case True
    with m show ?thesis
      by (simp add: attachChecked_store storeCollects_append)
  next
    case False
    then have c0: "count_list ?ms (p, c) = 0"
      by (simp add: count_list_0_iff)
    have in3: "(p, c) \<in> set (storeCollects u ms0 (log @ [CollectExists p c, CreateCollect p c]))"
      using False by (simp add: storeCollects_append)
    have "attachChecked False (storeEnv u ms0) p [c]
            (snd (attachChecked False (storeEnv u ms0) p [c] log))
          = (Inr (), (log @ [CollectExists p c, CreateCollect p c]) @ [CollectExists p c])"
      using False in3 by (simp only: attachChecked_store if_False if_True snd_conv)
    with False c0 show ?thesis
      by (simp add: storeCollects_append count_list_append1)
  qed
qed

theorem attach_twice_one_membership_witness:
  "restCreateCollect (storeEnv True [(Some (JNum 1), Some (JNum 7))]) (Some (JNum 1)) (Some (JNum 7)) []
     = (Inr None, [CreateCollect (Some (JNum 1)) (Some (JNum 7))])
   \<and> count_list
        (storeCollects True []
           (snd (attach (storeEnv True []) (Some (JNum 1)) [ex_ensured ! 1]
              (snd (attach (storeEnv True []) (Some (JNum 1)) [ex_ensured ! 1] [])))))
        (Some (JNum 1), Some (JNum 7)) = 1
   \<and> count_list
        (storeCollects False []
           (snd (attachChecked False (storeEnv False []) (Some (JNum 1)) [Some (JNum 7)]
              (snd (attachChecked False (storeEnv False []) (Some (JNum 1)) [Some (JNum 7)] [])))))
        (Some (JNum 1), Some (JNum 7)) = 1"
proof -
  let ?p = "Some (JNum 1)" and ?c = "Some (JNum 7)"
  have id: "en_id (ex_ensured ! 1) = ?c"
    by (simp add: ex_ensured_def)
  have f: "env_fetch (storeEnv True [(?p, ?c)]) ([] @ [CreateCollect ?p ?c]) = Inr alreadyExists"
    by (simp add: storeEnv_def storeFetch_def storeCollects_def)
  have s: "status alreadyExists = 422"
    by (simp add: alreadyExists_def)
  have t: "saysAlreadyExists (body_text alreadyExists)"
    by code_simp
  have c0: "count_list (storeCollects True [] []) (?p, en_id (ex_ensured ! 1)) \<le> 1"
    by (simp add: storeCollects_def)
  have c1: "count_list (storeCollects False [] []) (?p, ?c) \<le> 1"
    by (simp add: storeCollects_def)
  note th = attach_twice_one_membership[of "storeEnv True [(?p, ?c)]" "[]" ?p ?c alreadyExists
      "[]" "ex_ensured ! 1" False]
  from th f s t have "restCreateCollect (storeEnv True [(?p, ?c)]) ?p ?c []
                      = (Inr None, [] @ [CreateCollect ?p ?c])"
    by blast
  moreover from th c0 have "count_list
        (storeCollects True []
           (snd (attach (storeEnv True []) ?p [ex_ensured ! 1]
              (snd (attach (storeEnv True []) ?p [ex_ensured ! 1] [])))))
        (?p, en_id (ex_ensured ! 1)) = 1"
    by blast
  moreover from th c1 have "count_list
        (storeCollects False []
           (snd (attachChecked False (storeEnv False []) ?p [?c]
              (snd (attachChecked False (storeEnv False []) ?p [?c] [])))))
        (?p, ?c) = 1"
    by blast
  ultimately show ?thesis
    unfolding id by simp
qed


end
